theory Spec2Isabelle
  imports Complex_Main "HOL-Library.Word"
begin

section \<open>Illumination physics: the circular-segment model\<close>

text \<open>
  \<^verbatim>\<open>IlluminationEngine.calculate_circular_segment_area\<close> of
  \<^verbatim>\<open>illumination_engine.py\<close> works on numpy arrays, pixel by pixel: every
  operation in it is elementwise, and a scalar radius is broadcast to every pixel. The
  embedding is the function of one pixel. Binary floating-point numbers are idealised as
  real numbers in this development; the one rounding that is modelled, in the wrapping of
  an azimuth, is said where it occurs.
\<close>

definition radians :: "real \<Rightarrow> real" where
  \<comment> \<open>\<^verbatim>\<open>np.radians\<close>\<close>
  "radians d = d * pi / 180"

definition calculate_circular_segment_area :: "real \<Rightarrow> real \<Rightarrow> real \<Rightarrow> real" where
  "calculate_circular_segment_area sun_elev_deg horizon_elev_deg sun_radius_deg =
     (let r_rad = radians sun_radius_deg;
          h_rad = radians (horizon_elev_deg - sun_elev_deg);
          fraction = 0;
          mask_partial = (h_rad > - r_rad \<and> h_rad < r_rad);
          fraction =
            (if mask_partial then
               (let h_part = h_rad;
                    r_part = r_rad;
                    x = \<bar>h_part\<bar>;
                    x = min x r_part;
                    term1 = r_part\<^sup>2 * arccos (x / r_part);
                    term2 = x * sqrt (r_part\<^sup>2 - x\<^sup>2);
                    seg_area = term1 - term2;
                    total_area = pi * r_part\<^sup>2;
                    seg_frac = seg_area / total_area
                in if h_part \<ge> 0 then seg_frac else 1 - seg_frac)
             else fraction);
          fraction = (if h_rad \<le> - r_rad then 1 else fraction);
          fraction = (if h_rad \<ge> r_rad then 0 else fraction)
      in fraction)"

text \<open>
  The segment fraction as the specification writes it, in degrees: the share of a disk
  of radius \<open>r\<close> cut off by a chord at distance \<open>x\<close> from the centre.
\<close>

definition spec_segment_fraction :: "real \<Rightarrow> real \<Rightarrow> real" where
  "spec_segment_fraction x r =
     (r\<^sup>2 * arccos (x / r) - x * sqrt (r\<^sup>2 - x\<^sup>2)) / (pi * r\<^sup>2)"

text \<open>
  Two notions used in the proofs only. With \<open>\<theta>\<close> the half-angle under which the chord is
  seen from the centre of the unit disk, \<open>disk_above \<theta>\<close> is the area of the segment it cuts
  off; \<open>clamp_unit\<close> restricts a ratio to \<open>[-1, 1]\<close>.
\<close>

definition disk_above :: "real \<Rightarrow> real" where
  "disk_above \<theta> = \<theta> - sin \<theta> * cos \<theta>"

definition clamp_unit :: "real \<Rightarrow> real" where
  "clamp_unit t = max (- 1) (min 1 t)"

section \<open>Python values\<close>

text \<open>
  The exceptions the modelled code can raise. \<open>KeyboardInterrupt\<close> and \<open>SystemExit\<close>
  derive from \<^verbatim>\<open>BaseException\<close> only; every other one derives from
  \<^verbatim>\<open>Exception\<close>. \<open>OtherException\<close> stands for what an external library raises.
\<close>

datatype py_exception =
    TypeError | KeyError | AttributeError | IndexError | ValueError
  | ZeroDivisionError | FileNotFoundError | OverflowError | KeyboardInterrupt | SystemExit
  | OtherException string

text \<open>A value loaded by \<^verbatim>\<open>json.load\<close>; in an object a repeated key keeps its last value.\<close>

datatype json =
    JNull | JBool bool | JNum real | JStr string | JArr "json list"
  | JObj "(string \<times> json) list"

definition py_getitem :: "json \<Rightarrow> string \<Rightarrow> py_exception + json" where
  \<comment> \<open>\<^verbatim>\<open>v[key]\<close> with a string key\<close>
  "py_getitem v key =
     (case v of
        JObj kvs \<Rightarrow> (case map_of (rev kvs) key of None \<Rightarrow> Inl KeyError | Some x \<Rightarrow> Inr x)
      | _ \<Rightarrow> Inl TypeError)"

definition py_get :: "json \<Rightarrow> string \<Rightarrow> json \<Rightarrow> py_exception + json" where
  \<comment> \<open>\<^verbatim>\<open>v.get(key, default)\<close>\<close>
  "py_get v key dflt =
     (case v of
        JObj kvs \<Rightarrow> (case map_of (rev kvs) key of None \<Rightarrow> Inr dflt | Some x \<Rightarrow> Inr x)
      | _ \<Rightarrow> Inl AttributeError)"

definition py_int :: "real \<Rightarrow> int" where
  \<comment> \<open>\<^verbatim>\<open>int(x)\<close> of a float: truncation toward zero\<close>
  "py_int x = (if 0 \<le> x then \<lfloor>x\<rfloor> else \<lceil>x\<rceil>)"

definition round_half_even :: "real \<Rightarrow> int" where
  \<comment> \<open>rounding to the nearest integer, a tie to the even one (\<^verbatim>\<open>np.around\<close>, \<^verbatim>\<open>timedelta\<close>)\<close>
  "round_half_even x =
     (let n = \<lfloor>x\<rfloor>; r = x - of_int n
      in if r < 1 / 2 then n else if 1 / 2 < r then n + 1 else if even n then n else n + 1)"

definition py_slice_bound :: "nat \<Rightarrow> int \<Rightarrow> nat" where
  \<comment> \<open>a slice bound clipped to a sequence of length \<open>n\<close>; a negative one counts from the end\<close>
  "py_slice_bound n i = (if i < 0 then nat (max 0 (i + int n)) else min n (nat i))"

definition py_slice :: "'a list \<Rightarrow> int \<Rightarrow> int \<Rightarrow> 'a list" where
  \<comment> \<open>\<^verbatim>\<open>xs[start:stop]\<close>\<close>
  "py_slice xs start stop =
     (let n = length xs; lo = py_slice_bound n start; hi = py_slice_bound n stop
      in take (hi - lo) (drop lo xs))"

definition np_arange :: "int \<Rightarrow> int \<Rightarrow> int list" where
  \<comment> \<open>\<^verbatim>\<open>np.arange(start, stop)\<close> on integers\<close>
  "np_arange start stop = [start..stop - 1]"

definition np_index :: "'a list \<Rightarrow> int \<Rightarrow> py_exception + 'a" where
  \<comment> \<open>indexing one axis with an integer: a negative index counts from the end\<close>
  "np_index xs i =
     (let n = int (length xs); j = (if i < 0 then i + n else i)
      in if 0 \<le> j \<and> j < n then Inr (xs ! nat j) else Inl IndexError)"

definition np_mod :: "real \<Rightarrow> real \<Rightarrow> real" where
  \<comment> \<open>\<^verbatim>\<open>np.mod\<close>: the remainder has the sign of the divisor\<close>
  "np_mod x y = x - y * of_int \<lfloor>x / y\<rfloor>"

fun chunks :: "nat \<Rightarrow> nat \<Rightarrow> 'a list \<Rightarrow> 'a list list" where
  \<comment> \<open>\<open>rows\<close> consecutive rows of \<open>cols\<close> elements each\<close>
  "chunks 0 cols xs = []"
| "chunks (Suc rows) cols xs = take cols xs # chunks rows cols (drop cols xs)"

definition np_reshape :: "'a list \<Rightarrow> int \<Rightarrow> int \<Rightarrow> py_exception + 'a list list" where
  \<comment> \<open>\<^verbatim>\<open>flat.reshape(rows, cols)\<close>: one dimension may be \<open>-1\<close> and is then inferred\<close>
  "np_reshape flat rows cols =
     (let n = int (length flat)
      in if rows < - 1 \<or> cols < - 1 \<or> (rows = - 1 \<and> cols = - 1) then Inl ValueError
         else if rows = - 1 then
           (if cols = 0 \<or> n mod cols \<noteq> 0 then Inl ValueError
            else Inr (chunks (nat (n div cols)) (nat cols) flat))
         else if cols = - 1 then
           (if rows = 0 \<or> n mod rows \<noteq> 0 then Inl ValueError
            else Inr (chunks (nat rows) (nat (n div rows)) flat))
         else if rows * cols \<noteq> n then Inl ValueError
         else Inr (chunks (nat rows) (nat cols) flat))"

fun sequence :: "(py_exception + 'a) list \<Rightarrow> py_exception + 'a list" where
  \<comment> \<open>the results in order, or the first exception raised\<close>
  "sequence [] = Inr []"
| "sequence (r # rs) =
     (case r of
        Inl e \<Rightarrow> Inl e
      | Inr v \<Rightarrow> (case sequence rs of Inl e \<Rightarrow> Inl e | Inr vs \<Rightarrow> Inr (v # vs)))"

section \<open>The horizon grid: \<^verbatim>\<open>RealDEM\<close>\<close>

text \<open>
  The affine pixel transform \<^verbatim>\<open>rasterio.Affine(a, b, c, d, e, f)\<close>, which maps a pixel
  position \<open>(col, row)\<close> to \<open>(a * col + b * row + c, d * col + e * row + f)\<close>.
\<close>

record affine =
  aff_a :: real
  aff_b :: real
  aff_c :: real
  aff_d :: real
  aff_e :: real
  aff_f :: real

definition from_gdal :: "real \<times> real \<times> real \<times> real \<times> real \<times> real \<Rightarrow> affine" where
  \<comment> \<open>\<^verbatim>\<open>Affine.from_gdal(c, a, b, f, d, e)\<close>\<close>
  "from_gdal g =
     (case g of (c, a, b, f, d, e) \<Rightarrow>
        \<lparr>aff_a = a, aff_b = b, aff_c = c, aff_d = d, aff_e = e, aff_f = f\<rparr>)"

definition affine_apply :: "affine \<Rightarrow> real \<times> real \<Rightarrow> real \<times> real" where
  \<comment> \<open>\<^verbatim>\<open>transform * (x, y)\<close>\<close>
  "affine_apply t p =
     (case p of (vx, vy) \<Rightarrow>
        (vx * aff_a t + vy * aff_b t + aff_c t, vx * aff_d t + vy * aff_e t + aff_f t))"

text \<open>
  The metadata record read from the JSON file: the keys \<^verbatim>\<open>width\<close>, \<^verbatim>\<open>height\<close>,
  \<^verbatim>\<open>transform\<close> (six coefficients in GDAL order) and the optional
  \<^verbatim>\<open>buffer_meters\<close>.
\<close>

record dem_meta =
  meta_width :: int
  meta_height :: int
  meta_transform :: "real \<times> real \<times> real \<times> real \<times> real \<times> real"
  meta_buffer_meters :: "real option"

text \<open>
  The fields of a \<^verbatim>\<open>RealDEM\<close> object. The horizon cube holds 16-bit signed integers,
  indexed row, column, azimuth bucket. The fields \<^verbatim>\<open>width\<close> and \<^verbatim>\<open>height\<close> of the
  source are copies of \<open>roi_width\<close> and \<open>roi_height\<close>.
\<close>

record real_dem =
  roi_width :: int
  roi_height :: int
  horizon_roi :: "16 word list list list"
  x_coords :: "real list"
  y_coords :: "real list"
  X_grid :: "real list list"
  Y_grid :: "real list list"
  lats :: "real list list"
  lons :: "real list list"

definition buffer_m_of :: "dem_meta \<Rightarrow> real" where
  \<comment> \<open>line 26: \<^verbatim>\<open>self.meta.get('buffer_meters', 50000.0)\<close>\<close>
  "buffer_m_of meta = (case meta_buffer_meters meta of None \<Rightarrow> 50000 | Some b \<Rightarrow> b)"

definition pixel_size_of :: "dem_meta \<Rightarrow> real" where
  \<comment> \<open>line 27: \<^verbatim>\<open>self.transform.a\<close>\<close>
  "pixel_size_of meta = aff_a (from_gdal (meta_transform meta))"

definition buffer_px_of :: "dem_meta \<Rightarrow> py_exception + int" where
  \<comment> \<open>line 28: \<^verbatim>\<open>int(buffer_m / pixel_size)\<close>, a division of floats\<close>
  "buffer_px_of meta =
     (let buffer_m = buffer_m_of meta;
          pixel_size = pixel_size_of meta
      in if pixel_size = 0 then Inl ZeroDivisionError
         else Inr (py_int (buffer_m / pixel_size)))"

definition RealDEM_load ::
  "dem_meta \<Rightarrow> bool \<Rightarrow> 16 word list list list \<Rightarrow> (real \<Rightarrow> real \<Rightarrow> real \<times> real)
     \<Rightarrow> py_exception + real_dem" where
  \<comment> \<open>lines 21 to 65 of \<^verbatim>\<open>RealDEM.__init__\<close>. \<open>mask_exists\<close> is \<^verbatim>\<open>os.path.exists(mask_path)\<close>,
      \<open>full_horizon_cube\<close> the memory map of shape (full height, full width, 360), and
      \<open>warp\<close> the projection of one point to (longitude, latitude).\<close>
  "RealDEM_load meta mask_exists full_horizon_cube warp =
     (let full_width = meta_width meta;
          full_height = meta_height meta;
          transform = from_gdal (meta_transform meta)
      in case buffer_px_of meta of
           Inl ex \<Rightarrow> Inl ex
         | Inr buffer_px \<Rightarrow>
            (let x_start = buffer_px; x_end = full_width - buffer_px;
                 y_start = buffer_px; y_end = full_height - buffer_px;
                 roi_w = x_end - x_start;
                 roi_h = y_end - y_start
             in if \<not> mask_exists then Inl FileNotFoundError
                else
                 (let roi = map (\<lambda>row. py_slice row x_start x_end)
                              (py_slice full_horizon_cube y_start y_end);
                      col_indices = map (\<lambda>i. real_of_int i + 1 / 2) (np_arange x_start x_end);
                      xs = map (\<lambda>v. fst (affine_apply transform (v, 0))) col_indices;
                      row_indices = map (\<lambda>i. real_of_int i + 1 / 2) (np_arange y_start y_end);
                      ys = map (\<lambda>v. snd (affine_apply transform (0, v))) row_indices;
                      Xg = map (\<lambda>y. xs) ys;
                      Yg = map (\<lambda>y. map (\<lambda>x. y) xs) ys;
                      e_flat = concat Xg;
                      n_flat = concat Yg;
                      geo = map (\<lambda>(x, y). warp x y) (zip e_flat n_flat);
                      lons_flat = map fst geo;
                      lats_flat = map snd geo
                  in case np_reshape lats_flat roi_h roi_w of
                       Inl ex \<Rightarrow> Inl ex
                     | Inr la \<Rightarrow>
                        (case np_reshape lons_flat roi_h roi_w of
                           Inl ex \<Rightarrow> Inl ex
                         | Inr lo \<Rightarrow>
                            Inr \<lparr>roi_width = roi_w, roi_height = roi_h, horizon_roi = roi,
                                 x_coords = xs, y_coords = ys, X_grid = Xg, Y_grid = Yg,
                                 lats = la, lons = lo\<rparr>))))"

definition enforce_decreasing_y :: "real_dem \<Rightarrow> py_exception + real_dem" where
  \<comment> \<open>lines 67 to 73: reading \<^verbatim>\<open>y_coords[0]\<close> of an empty vector raises\<close>
  "enforce_decreasing_y dem =
     (if y_coords dem = [] then Inl IndexError
      else if hd (y_coords dem) < last (y_coords dem) then
        Inr (dem\<lparr>y_coords := rev (y_coords dem),
                 horizon_roi := rev (horizon_roi dem),
                 lats := rev (lats dem),
                 lons := rev (lons dem)\<rparr>)
      else Inr dem)"

definition RealDEM_init ::
  "dem_meta \<Rightarrow> bool \<Rightarrow> 16 word list list list \<Rightarrow> (real \<Rightarrow> real \<Rightarrow> real \<times> real)
     \<Rightarrow> py_exception + real_dem" where
  "RealDEM_init meta mask_exists full_horizon_cube warp =
     (case RealDEM_load meta mask_exists full_horizon_cube warp of
        Inl ex \<Rightarrow> Inl ex
      | Inr dem \<Rightarrow> enforce_decreasing_y dem)"

definition az_floor :: "real \<Rightarrow> int" where
  \<comment> \<open>lines 76 and 77: the bucket at or below the wrapped azimuth\<close>
  "az_floor azimuth = \<lfloor>np_mod azimuth 360\<rfloor>"

definition az_ceil :: "real \<Rightarrow> int" where
  \<comment> \<open>line 78: the next bucket\<close>
  "az_ceil azimuth = (az_floor azimuth + 1) mod 360"

definition horizon_pixel :: "16 word list \<Rightarrow> real \<Rightarrow> py_exception + real" where
  \<comment> \<open>lines 76 to 87 of \<^verbatim>\<open>get_horizon_elevation_vectorized\<close> at one pixel, whose stored
      values are \<open>profile\<close>\<close>
  "horizon_pixel profile azimuth =
     (let az = np_mod azimuth 360;
          fraction = az - of_int (az_floor azimuth)
      in case np_index profile (az_floor azimuth) of
           Inl ex \<Rightarrow> Inl ex
         | Inr v1 \<Rightarrow>
            (case np_index profile (az_ceil azimuth) of
               Inl ex \<Rightarrow> Inl ex
             | Inr v2 \<Rightarrow>
                (let h1 = real_of_int (sint v1) / 100;
                     h2 = real_of_int (sint v2) / 100
                 in Inr (h1 + (h2 - h1) * fraction))))"

definition get_horizon_elevation_vectorized ::
  "16 word list list list \<Rightarrow> real list list \<Rightarrow> py_exception + real list list" where
  \<comment> \<open>every pixel \<open>(y, x)\<close> of the azimuth grid reads \<open>horizon_roi[y, x, :]\<close>\<close>
  "get_horizon_elevation_vectorized roi azimuth_grid =
     sequence (map (\<lambda>(y, row).
        sequence (map (\<lambda>(x, azimuth).
           if y < length roi \<and> x < length (roi ! y)
           then horizon_pixel (roi ! y ! x) azimuth
           else Inl IndexError) (enumerate 0 row))) (enumerate 0 azimuth_grid))"

text \<open>
  The same lookup with line 76 as numpy computes it on binary64 numbers. \<^verbatim>\<open>np.mod\<close>
  takes the C remainder \<^verbatim>\<open>fmod\<close>, which is exact and has the sign of the dividend, and,
  when that remainder is not zero and its sign differs from the divisor's, adds the divisor
  to it: an addition of floats, rounded to the nearest binary64 number. Every other
  operation of the lookup is kept exact.
\<close>

definition c_fmod :: "real \<Rightarrow> real \<Rightarrow> real" where
  \<comment> \<open>\<^verbatim>\<open>fmod(x, y)\<close>: \<open>x\<close> minus \<open>y\<close> times the quotient truncated toward zero\<close>
  "c_fmod x y = x - y * of_int (py_int (x / y))"

definition round_binary64 :: "real \<Rightarrow> real" where
  \<comment> \<open>rounding to the nearest number with a significand of 53 bits, a tie to the even
      one, in the normal range: \<open>x\<close> lies in \<open>[2^e, 2^(e+1))\<close> and is rounded to a multiple
      of \<open>2^(e - 52)\<close>\<close>
  "round_binary64 x =
     (if x = 0 then 0
      else (let q = 2 powr (of_int \<lfloor>log 2 \<bar>x\<bar>\<rfloor> - 52)
            in of_int (round_half_even (x / q)) * q))"

definition np_mod_binary64 :: "real \<Rightarrow> real \<Rightarrow> real" where
  \<comment> \<open>\<^verbatim>\<open>np.mod(x, y)\<close> on binary64 numbers, for a divisor that is not zero\<close>
  "np_mod_binary64 x y =
     (let m = c_fmod x y
      in if m \<noteq> 0 \<and> ((y < 0) \<noteq> (m < 0)) then round_binary64 (m + y) else m)"

definition horizon_pixel_binary64 :: "16 word list \<Rightarrow> real \<Rightarrow> py_exception + real" where
  \<comment> \<open>lines 76 to 87 at one pixel, with \<^verbatim>\<open>np.mod\<close> as above\<close>
  "horizon_pixel_binary64 profile azimuth =
     (let az = np_mod_binary64 azimuth 360;
          az_floor = \<lfloor>az\<rfloor>;
          az_ceil = (az_floor + 1) mod 360;
          fraction = az - of_int az_floor
      in case np_index profile az_floor of
           Inl ex \<Rightarrow> Inl ex
         | Inr v1 \<Rightarrow>
            (case np_index profile az_ceil of
               Inl ex \<Rightarrow> Inl ex
             | Inr v2 \<Rightarrow>
                (let h1 = real_of_int (sint v1) / 100;
                     h2 = real_of_int (sint v2) / 100
                 in Inr (h1 + (h2 - h1) * fraction))))"

text \<open>
  The shape under which a lookup is made: the cube has a pixel for every pixel of the
  azimuth grid, and every pixel stores 360 buckets.
\<close>

definition horizon_cube_covers :: "16 word list list list \<Rightarrow> real list list \<Rightarrow> bool" where
  "horizon_cube_covers roi azimuth_grid =
     (\<forall>y < length azimuth_grid. y < length roi \<and>
        (\<forall>x < length (azimuth_grid ! y). x < length (roi ! y) \<and> length (roi ! y ! x) = 360))"

text \<open>The value a lookup interpolates, used in the proofs.\<close>

definition interpolated :: "16 word list \<Rightarrow> real \<Rightarrow> real" where
  "interpolated profile azimuth =
     (let h1 = real_of_int (sint (profile ! nat (az_floor azimuth))) / 100;
          h2 = real_of_int (sint (profile ! nat (az_ceil azimuth))) / 100
      in h1 + (h2 - h1) * (np_mod azimuth 360 - of_int (az_floor azimuth)))"

text \<open>A stored profile for the examples: bucket \<open>n\<close> holds \<open>10 * n\<close> hundredths of a degree.\<close>

definition ramp_profile :: "16 word list" where
  "ramp_profile = map (\<lambda>n. word_of_int (10 * int n)) [0..<360]"

text \<open>
  A small terrain for the examples: four rows of four pixels of 20 m, rows running north
  to south, a buffer of 35 m; pixel \<open>(y, x)\<close> stores \<open>10 * y + x\<close> in every bucket. The
  projection is taken to be the identity.
\<close>

definition example_meta :: dem_meta where
  "example_meta =
     \<lparr>meta_width = 4, meta_height = 4, meta_transform = (0, 20, 0, 0, 0, - 20),
      meta_buffer_meters = Some 35\<rparr>"

definition example_cube :: "16 word list list list" where
  "example_cube =
     map (\<lambda>y. map (\<lambda>x. replicate 360 (word_of_int (10 * int y + int x))) [0..<4]) [0..<4]"

definition example_warp :: "real \<Rightarrow> real \<Rightarrow> real \<times> real" where
  "example_warp x y = (x, y)"

text \<open>The same terrain stored south to north, and with a degenerate transform.\<close>

definition example_meta_south_up :: dem_meta where
  "example_meta_south_up = example_meta\<lparr>meta_transform := (0, 20, 0, 0, 0, 20)\<rparr>"

definition example_meta_flat :: dem_meta where
  "example_meta_flat = example_meta\<lparr>meta_transform := (0, 20, 0, 0, 0, 0)\<rparr>"

section \<open>The output dataset: \<^verbatim>\<open>init_netcdf\<close>\<close>

text \<open>
  The state of the NetCDF dataset that the driver writes: the coordinate variables, the
  packing attributes of the \<^verbatim>\<open>illumination\<close> variable (a signed 8-bit integer), the
  records written so far along the unlimited time dimension (\<open>None\<close> is a record never
  written, which reads as the fill value), and how often the dataset was synchronised
  and closed.
\<close>

record nc_dataset =
  nc_ys :: "real list"
  nc_xs :: "real list"
  time_origin :: int
  scale_factor :: real
  add_offset :: real
  fill_value :: "8 word"
  valid_range :: "int \<times> int"
  nc_times :: "real option list"
  nc_illum :: "8 word list list option list"
  sync_count :: nat
  close_count :: nat

definition nc_Dataset :: nc_dataset where
  \<comment> \<open>line 140: the dataset just opened by \<^verbatim>\<open>nc.Dataset(output_path, 'w')\<close>. It has no
      variable yet; the packing attributes read as the library's defaults (no scaling, the
      default fill value of a byte).\<close>
  "nc_Dataset =
     \<lparr>nc_ys = [], nc_xs = [], time_origin = 0, scale_factor = 1, add_offset = 0,
      fill_value = - 127, valid_range = (- 128, 127), nc_times = [], nc_illum = [],
      sync_count = 0, close_count = 0\<rparr>"

definition init_netcdf ::
  "py_exception option \<Rightarrow> py_exception option \<Rightarrow> json \<Rightarrow> real_dem \<Rightarrow> int \<Rightarrow> int
     \<Rightarrow> (py_exception \<times> nc_dataset option) + nc_dataset" where
  \<comment> \<open>lines 138 to 209. \<open>create_exc\<close> is the exception, if any, that opening the file
      raises (line 140); \<open>setup_exc\<close> the one, if any, that arrives or is raised in lines
      143 to 207, once the file is open. \<^verbatim>\<open>np.min\<close> and \<^verbatim>\<open>np.max\<close> of an empty array
      raise (lines 149 to 152). A failure is returned with the dataset that was opened
      and is not returned to the caller, if any.\<close>
  "init_netcdf create_exc setup_exc output_path dem start_time end_time =
     (case create_exc of
        Some ex \<Rightarrow> Inl (ex, None)
      | None \<Rightarrow>
         (let ds = nc_Dataset
          in if concat (lats dem) = [] \<or> concat (lons dem) = [] then Inl (ValueError, Some ds)
             else
              (case setup_exc of
                 Some ex \<Rightarrow> Inl (ex, Some ds)
               | None \<Rightarrow>
                   Inr (ds\<lparr>nc_ys := y_coords dem, nc_xs := x_coords dem,
                           time_origin := start_time,
                           scale_factor := 1 / 254, add_offset := 1 / 2, fill_value := - 128,
                           valid_range := (- 127, 127)\<rparr>))))"

definition nc_pack :: "nc_dataset \<Rightarrow> real \<Rightarrow> 8 word" where
  \<comment> \<open>Modelled from the spec: the packing is done by the netCDF library when a float array
      is assigned to the variable (line 244), not by code of the repository. The fraction
      is affine-transformed with the scale and offset of the variable and rounded to the
      nearest integer, stored in 8 bits.\<close>
  "nc_pack ds v = word_of_int (round_half_even ((v - add_offset ds) / scale_factor ds))"

definition nc_unpack :: "nc_dataset \<Rightarrow> 8 word \<Rightarrow> real" where
  \<comment> \<open>Modelled from the spec: the inverse transform, applied by a reader of the file.\<close>
  "nc_unpack ds w = real_of_int (sint w) * scale_factor ds + add_offset ds"

definition nc_assign :: "'a option list \<Rightarrow> nat \<Rightarrow> 'a \<Rightarrow> 'a option list" where
  \<comment> \<open>\<^verbatim>\<open>var[idx] = v\<close> along the unlimited dimension, which grows to hold the record\<close>
  "nc_assign xs idx v =
     (if idx < length xs then xs[idx := Some v]
      else xs @ replicate (idx - length xs) None @ [Some v])"

section \<open>The simulation driver: \<^verbatim>\<open>__main__\<close> of \<^verbatim>\<open>run_mission.py\<close>\<close>

text \<open>
  An instant is a \<^verbatim>\<open>datetime\<close>, counted in microseconds since 0001-01-01T00:00:00, the
  least one; the greatest one is 9999-12-31T23:59:59.999999. A \<^verbatim>\<open>timedelta\<close> is a
  number of microseconds, of at most 999999999 days in absolute value.
\<close>

definition datetime_max :: int where
  \<comment> \<open>3652059 days of 86400 seconds, less one microsecond\<close>
  "datetime_max = 315537897599999999"

definition timedelta_min :: int where
  "timedelta_min = - 86399999913600000000"

definition timedelta_max :: int where
  "timedelta_max = 86399999999999999999"

definition timedelta_hours :: "json \<Rightarrow> py_exception + int" where
  \<comment> \<open>\<^verbatim>\<open>timedelta(hours=v)\<close>, rounded to the microsecond\<close>
  "timedelta_hours v =
     (case v of
        JNum h \<Rightarrow>
          (let us = round_half_even (h * 3600000000)
           in if timedelta_min \<le> us \<and> us \<le> timedelta_max then Inr us else Inl OverflowError)
      | JBool b \<Rightarrow> Inr (if b then 3600000000 else 0)
      | _ \<Rightarrow> Inl TypeError)"

definition datetime_add :: "int \<Rightarrow> int \<Rightarrow> py_exception + int" where
  \<comment> \<open>\<^verbatim>\<open>current_time + delta\<close>: a result outside the years 1 to 9999 raises\<close>
  "datetime_add t delta =
     (if 0 \<le> t + delta \<and> t + delta \<le> datetime_max then Inr (t + delta)
      else Inl OverflowError)"

definition compute_frame ::
  "(int \<Rightarrow> py_exception + real list list \<times> real list list \<times> real) \<Rightarrow> real_dem \<Rightarrow> int
     \<Rightarrow> py_exception + real list list" where
  \<comment> \<open>lines 233 to 238. \<open>geometry\<close> stands for the ephemeris queries and the grid geometry
      of lines 233 to 236: the azimuth grid, the elevation grid and the sun radius at an
      instant, or the exception raised while they are computed.\<close>
  "compute_frame geometry dem current_time =
     (case geometry current_time of
        Inl ex \<Rightarrow> Inl ex
      | Inr (az_grid, el_grid, sun_radius) \<Rightarrow>
         (case get_horizon_elevation_vectorized (horizon_roi dem) az_grid of
            Inl ex \<Rightarrow> Inl ex
          | Inr horizon_grid \<Rightarrow>
             Inr (map (\<lambda>(el_row, hz_row).
                    map (\<lambda>(el, hz). calculate_circular_segment_area el hz sun_radius)
                      (zip el_row hz_row))
                  (zip el_grid horizon_grid))))"

definition hours_elapsed_of :: "int \<Rightarrow> int \<Rightarrow> real" where
  \<comment> \<open>line 240: \<^verbatim>\<open>(current_time - start).total_seconds() / 3600.0\<close>\<close>
  "hours_elapsed_of start current_time = real_of_int (current_time - start) / 1000000 / 3600"

definition commit_frame :: "nc_dataset \<Rightarrow> nat \<Rightarrow> real \<Rightarrow> real list list \<Rightarrow> nc_dataset" where
  \<comment> \<open>lines 241 to 248: the time, the packed frame, and a sync every 24 frames\<close>
  "commit_frame ds idx hours_elapsed illum_map =
     (let ds = ds\<lparr>nc_times := nc_assign (nc_times ds) idx hours_elapsed\<rparr>;
          ds = ds\<lparr>nc_illum := nc_assign (nc_illum ds) idx (map (map (nc_pack ds)) illum_map)\<rparr>
      in if idx mod 24 = 0 then ds\<lparr>sync_count := sync_count ds + 1\<rparr> else ds)"

text \<open>
  The loop of lines 232 to 251. It returns the exception that left it, if any, and the
  dataset as it then is; with a time step of zero it may run forever.
\<close>

partial_function (option) simulation_loop ::
  "(int \<Rightarrow> py_exception + real list list) \<Rightarrow> int \<Rightarrow> int \<Rightarrow> json \<Rightarrow> nat \<Rightarrow> int \<Rightarrow> nc_dataset
     \<Rightarrow> (py_exception option \<times> nc_dataset) option" where
  "simulation_loop frame_at start end_time time_step_hours idx current_time ds =
     (if current_time \<le> end_time then
        (case frame_at current_time of
           Inl ex \<Rightarrow> Some (Some ex, ds)
         | Inr illum_map \<Rightarrow>
            (case timedelta_hours time_step_hours of
               Inl ex \<Rightarrow>
                 Some (Some ex, commit_frame ds idx (hours_elapsed_of start current_time) illum_map)
             | Inr step \<Rightarrow>
                (case datetime_add current_time step of
                   Inl ex \<Rightarrow>
                     Some (Some ex,
                       commit_frame ds idx (hours_elapsed_of start current_time) illum_map)
                 | Inr next_time \<Rightarrow>
                     simulation_loop frame_at start end_time time_step_hours (idx + 1) next_time
                       (commit_frame ds idx (hours_elapsed_of start current_time) illum_map))))
      else Some (None, ds))"

datatype outcome = Returned | Raised py_exception

definition outcome_of :: "py_exception option \<Rightarrow> outcome" where
  \<comment> \<open>lines 255 to 259: a \<^verbatim>\<open>KeyboardInterrupt\<close> is reported and swallowed; any other
      exception propagates\<close>
  "outcome_of exc =
     (case exc of
        None \<Rightarrow> Returned
      | Some ex \<Rightarrow> if ex = KeyboardInterrupt then Returned else Raised ex)"

definition nc_close :: "nc_dataset \<Rightarrow> nc_dataset" where
  \<comment> \<open>\<^verbatim>\<open>ds.close()\<close>\<close>
  "nc_close ds = ds\<lparr>close_count := close_count ds + 1\<rparr>"

definition finish :: "py_exception option \<Rightarrow> nc_dataset option \<Rightarrow> outcome \<times> nc_dataset option" where
  \<comment> \<open>lines 255 to 263: the handlers, then the \<^verbatim>\<open>finally\<close> clause, which closes the
      dataset if it was created\<close>
  "finish exc ds = (outcome_of exc, map_option nc_close ds)"

definition time_step_hours_of :: "json \<Rightarrow> py_exception + json" where
  \<comment> \<open>line 229: \<^verbatim>\<open>cfg.get('mission', {}).get('time_step_hours', 1)\<close>\<close>
  "time_step_hours_of cfg =
     (case py_get cfg ''mission'' (JObj []) of
        Inl ex \<Rightarrow> Inl ex
      | Inr mission \<Rightarrow> py_get mission ''time_step_hours'' (JNum 1))"

definition output_netcdf_of :: "json \<Rightarrow> py_exception + json" where
  \<comment> \<open>line 225: \<^verbatim>\<open>cfg['paths']['output_netcdf']\<close>\<close>
  "output_netcdf_of cfg =
     (case py_getitem cfg ''paths'' of
        Inl ex \<Rightarrow> Inl ex
      | Inr paths \<Rightarrow> py_getitem paths ''output_netcdf'')"

definition run_mission ::
  "py_exception option \<Rightarrow> py_exception option \<Rightarrow> (int \<Rightarrow> py_exception + real list list)
     \<Rightarrow> json \<Rightarrow> real_dem \<Rightarrow> int \<Rightarrow> int \<Rightarrow> (outcome \<times> nc_dataset option) option" where
  \<comment> \<open>lines 223 to 263: the \<^verbatim>\<open>try\<close> statement. The result is \<open>None\<close> when the loop does
      not end; otherwise how the statement is left, and the dataset that was opened, if
      any, as it is left. When \<^verbatim>\<open>init_netcdf\<close> raises, the variable \<^verbatim>\<open>ds\<close> is still
      \<^verbatim>\<open>None\<close> and the \<^verbatim>\<open>finally\<close> clause closes nothing.\<close>
  "run_mission create_exc setup_exc frame_at cfg dem start end_time =
     (case output_netcdf_of cfg of
        Inl ex \<Rightarrow> Some (finish (Some ex) None)
      | Inr output_path \<Rightarrow>
         (case init_netcdf create_exc setup_exc output_path dem start end_time of
            Inl (ex, opened) \<Rightarrow> Some (fst (finish (Some ex) None), opened)
          | Inr ds \<Rightarrow>
             (case time_step_hours_of cfg of
                Inl ex \<Rightarrow> Some (finish (Some ex) (Some ds))
              | Inr time_step_hours \<Rightarrow>
                 (case simulation_loop frame_at start end_time time_step_hours 0 start ds of
                    None \<Rightarrow> None
                  | Some (exc, ds') \<Rightarrow> Some (finish exc (Some ds'))))))"

text \<open>
  What the entry point takes from outside the program: the files, the projection, the
  ephemeris kernels, the date parser and the geometry of each instant.
\<close>

record world =
  read_meta :: "json \<Rightarrow> py_exception + dem_meta"
  path_exists :: "json \<Rightarrow> bool"
  memmap :: "json \<Rightarrow> 16 word list list list"
  warp_transform :: "real \<Rightarrow> real \<Rightarrow> real \<times> real"
  kernels_exc :: "py_exception option"
  fromisoformat :: "json \<Rightarrow> py_exception + int"
  create_exc :: "py_exception option"
  setup_exc :: "py_exception option"
  geometry :: "real_dem \<Rightarrow> int \<Rightarrow> py_exception + real list list \<times> real list list \<times> real"

definition RealDEM_body :: "world \<Rightarrow> json \<Rightarrow> json \<Rightarrow> py_exception + real_dem" where
  \<comment> \<open>\<^verbatim>\<open>RealDEM.__init__(self, meta_path, mask_path)\<close>, lines 17 to 73\<close>
  "RealDEM_body w meta_path mask_path =
     (case read_meta w meta_path of
        Inl ex \<Rightarrow> Inl ex
      | Inr meta \<Rightarrow>
          RealDEM_init meta (path_exists w mask_path) (memmap w mask_path) (warp_transform w))"

definition RealDEM_call :: "world \<Rightarrow> json list \<Rightarrow> py_exception + real_dem" where
  \<comment> \<open>a call \<^verbatim>\<open>RealDEM(...)\<close> with positional arguments: \<^verbatim>\<open>__init__\<close> takes two besides
      \<^verbatim>\<open>self\<close>, and a call with any other number raises\<close>
  "RealDEM_call w args =
     (case args of
        [meta_path, mask_path] \<Rightarrow> RealDEM_body w meta_path mask_path
      | _ \<Rightarrow> Inl TypeError)"

definition getitem2 :: "json \<Rightarrow> string \<Rightarrow> string \<Rightarrow> py_exception + json" where
  \<comment> \<open>\<^verbatim>\<open>v[k1][k2]\<close>\<close>
  "getitem2 v k1 k2 =
     (case py_getitem v k1 of Inl ex \<Rightarrow> Inl ex | Inr u \<Rightarrow> py_getitem u k2)"

definition main :: "world \<Rightarrow> json \<Rightarrow> (outcome \<times> nc_dataset option) option" where
  \<comment> \<open>lines 211 to 263, after the configuration \<open>cfg\<close> is loaded\<close>
  "main w cfg =
     (case getitem2 cfg ''paths'' ''output_meta'' of
        Inl ex \<Rightarrow> Some (Raised ex, None)
      | Inr output_meta \<Rightarrow>
     (case getitem2 cfg ''paths'' ''output_horizon'' of
        Inl ex \<Rightarrow> Some (Raised ex, None)
      | Inr output_horizon \<Rightarrow>
     (case RealDEM_call w [output_meta, output_horizon, cfg] of
        Inl ex \<Rightarrow> Some (Raised ex, None)
      | Inr dem \<Rightarrow>
     (case kernels_exc w of
        Some ex \<Rightarrow> Some (Raised ex, None)
      | None \<Rightarrow>
     (case getitem2 cfg ''mission'' ''start_date'' of
        Inl ex \<Rightarrow> Some (Raised ex, None)
      | Inr start_date \<Rightarrow>
     (case fromisoformat w start_date of
        Inl ex \<Rightarrow> Some (Raised ex, None)
      | Inr start \<Rightarrow>
     (case getitem2 cfg ''mission'' ''end_date'' of
        Inl ex \<Rightarrow> Some (Raised ex, None)
      | Inr end_date \<Rightarrow>
     (case fromisoformat w end_date of
        Inl ex \<Rightarrow> Some (Raised ex, None)
      | Inr end_time \<Rightarrow>
          run_mission (create_exc w) (setup_exc w) (compute_frame (geometry w dem) dem)
            cfg dem start end_time))))))))"

text \<open>
  A configuration and a world for the examples. The configuration names no time step, and
  its two dates are one hour apart; in the world every file is there and nothing fails.
\<close>

definition example_cfg :: json where
  "example_cfg =
     JObj [(''paths'', JObj [(''output_meta'', JStr ''meta.json''),
                             (''output_horizon'', JStr ''horizon.bin''),
                             (''output_netcdf'', JStr ''out.nc'')]),
           (''mission'', JObj [(''start_date'', JStr ''2030-01-01T00:00:00''),
                               (''end_date'', JStr ''2030-01-01T01:00:00'')])]"

definition example_world :: world where
  "example_world =
     \<lparr>read_meta = (\<lambda>p. Inr example_meta), path_exists = (\<lambda>p. True),
      memmap = (\<lambda>p. example_cube), warp_transform = example_warp, kernels_exc = None,
      fromisoformat = (\<lambda>v. if v = JStr ''2030-01-01T00:00:00'' then Inr 64029052800000000
                            else if v = JStr ''2030-01-01T01:00:00'' then Inr 64029056400000000
                            else Inl ValueError),
      create_exc = None, setup_exc = None,
      geometry = (\<lambda>dem t. Inr ([[0, 0], [0, 0]], [[1, 1], [1, 1]], 1 / 4))\<rparr>"

text \<open>A grid of one row and two pixels for the examples.\<close>

definition example_dem :: real_dem where
  "example_dem =
     \<lparr>roi_width = 2, roi_height = 1, horizon_roi = [[ramp_profile, ramp_profile]],
      x_coords = [30, 50], y_coords = [- 30], X_grid = [[30, 50]], Y_grid = [[- 30, - 30]],
      lats = [[- 30, - 30]], lons = [[30, 50]]\<rparr>"


section \<open>Properties of the circular-segment model\<close>

subsection \<open>Degrees and radians\<close>

lemma radians_le_iff: "radians a \<le> radians b \<longleftrightarrow> a \<le> b"
  by (simp add: radians_def)

lemma radians_less_iff: "radians a < radians b \<longleftrightarrow> a < b"
  by (simp add: radians_def)

lemma radians_minus: "- radians a = radians (- a)"
  by (simp add: radians_def)

lemma radians_abs: "\<bar>radians a\<bar> = radians \<bar>a\<bar>"
  by (simp add: radians_def abs_mult)

lemma radians_min: "min (radians a) (radians b) = radians (min a b)"
  by (simp add: min_def radians_le_iff)

lemma radians_nonneg_iff: "0 \<le> radians a \<longleftrightarrow> 0 \<le> a"
  using radians_le_iff [of 0 a] by (simp add: radians_def)

text \<open>The segment fraction is a ratio of areas, so the unit of angle cancels.\<close>

lemma segment_fraction_radians:
  assumes "0 < r"
  shows "spec_segment_fraction (radians x) (radians r) = spec_segment_fraction x r"
proof -
  define k :: real where "k = pi / 180"
  have k: "0 < k" by (simp add: k_def)
  have rx: "radians x = k * x" and rr: "radians r = k * r"
    by (simp_all add: radians_def k_def)
  have q: "(k * x) / (k * r) = x / r"
    using k by simp
  have "(k * r)\<^sup>2 - (k * x)\<^sup>2 = k\<^sup>2 * (r\<^sup>2 - x\<^sup>2)"
    by (simp add: power_mult_distrib right_diff_distrib)
  then have s: "sqrt ((k * r)\<^sup>2 - (k * x)\<^sup>2) = k * sqrt (r\<^sup>2 - x\<^sup>2)"
    using k by (simp add: real_sqrt_mult)
  have "spec_segment_fraction (k * x) (k * r) =
        (k\<^sup>2 * (r\<^sup>2 * arccos (x / r) - x * sqrt (r\<^sup>2 - x\<^sup>2))) / (k\<^sup>2 * (pi * r\<^sup>2))"
    unfolding spec_segment_fraction_def q s
    by (simp add: power_mult_distrib power2_eq_square right_diff_distrib mult_ac)
  also have "\<dots> = spec_segment_fraction x r"
    unfolding spec_segment_fraction_def using k by simp
  finally show ?thesis by (simp add: rx rr)
qed

lemma calc_cases:
  assumes "0 < r"
  shows "calculate_circular_segment_area s e r =
     (if e - s \<le> - r then 1
      else if r \<le> e - s then 0
      else if 0 \<le> e - s then spec_segment_fraction (min \<bar>e - s\<bar> r) r
      else 1 - spec_segment_fraction (min \<bar>e - s\<bar> r) r)"
proof -
  have sf: "spec_segment_fraction (min \<bar>radians (e - s)\<bar> (radians r)) (radians r)
        = spec_segment_fraction (min \<bar>e - s\<bar> r) r"
    using assms by (simp add: radians_abs radians_min segment_fraction_radians)
  show ?thesis
    using assms sf
    unfolding calculate_circular_segment_area_def Let_def spec_segment_fraction_def
    by (auto simp: radians_minus radians_le_iff radians_less_iff radians_nonneg_iff
        not_le not_less)
qed

lemma segment_fraction_centre:
  assumes "0 < r"
  shows "spec_segment_fraction 0 r = 1 / 2"
  using assms by (simp add: spec_segment_fraction_def)

text \<open>
  Claim C1. For a sun radius \<open>r > 0\<close> and \<open>h = e - s\<close> (horizon elevation minus sun
  elevation, in degrees), the function returns 1 when \<open>h \<le> -r\<close>, 0 when \<open>h \<ge> r\<close>, and in
  the partial band the segment fraction at \<open>x = min |h| r\<close> when \<open>h \<ge> 0\<close> and its
  complement when \<open>h < 0\<close>; in particular it is 1 at \<open>h = -r\<close>, 0 at \<open>h = r\<close> and one
  half at \<open>h = 0\<close>.
\<close>

theorem circular_segment_area_cases:
  assumes "0 < r"
  shows "calculate_circular_segment_area s e r =
           (if e - s \<le> - r then 1
            else if r \<le> e - s then 0
            else if 0 \<le> e - s then spec_segment_fraction (min \<bar>e - s\<bar> r) r
            else 1 - spec_segment_fraction (min \<bar>e - s\<bar> r) r)
       \<and> calculate_circular_segment_area s (s - r) r = 1
       \<and> calculate_circular_segment_area s (s + r) r = 0
       \<and> calculate_circular_segment_area s s r = 1 / 2"
proof -
  have "calculate_circular_segment_area s (s - r) r = 1"
    using assms by (simp add: calc_cases)
  moreover have "calculate_circular_segment_area s (s + r) r = 0"
    using assms by (simp add: calc_cases)
  moreover have "calculate_circular_segment_area s s r = 1 / 2"
    using assms by (simp add: calc_cases segment_fraction_centre)
  ultimately show ?thesis
    using calc_cases [OF assms] by simp
qed

theorem circular_segment_area_cases_witness:
  "(0::real) < 1 / 4
   \<and> calculate_circular_segment_area 20 0 (1 / 4) = 1
   \<and> calculate_circular_segment_area (- 20) 0 (1 / 4) = 0
   \<and> calculate_circular_segment_area 0 0 (1 / 4) = 1 / 2"
proof -
  have r: "(0::real) < 1 / 4" by simp
  have a: "calculate_circular_segment_area 20 0 (1 / 4) = 1"
    using circular_segment_area_cases [OF r, of 20 0] by simp
  have b: "calculate_circular_segment_area (- 20) 0 (1 / 4) = 0"
    using circular_segment_area_cases [OF r, of "- 20" 0] by simp
  have c: "calculate_circular_segment_area 0 0 (1 / 4) = 1 / 2"
    using circular_segment_area_cases [OF r, of 0 0] by simp
  show ?thesis using r a b c by simp
qed

subsection \<open>Monotonicity\<close>

lemma disk_above_mono:
  assumes "a \<le> b"
  shows "disk_above a \<le> disk_above b"
proof (rule DERIV_nonneg_imp_nondecreasing [OF assms])
  fix x :: real
  have "(disk_above has_real_derivative (1 - (cos x * cos x + sin x * (- sin x)))) (at x)"
    unfolding disk_above_def by (auto intro!: derivative_eq_intros)
  moreover have "0 \<le> 1 - (cos x * cos x + sin x * (- sin x))"
  proof -
    have "1 - (cos x * cos x + sin x * (- sin x)) = 2 * (sin x)\<^sup>2"
      using sin_cos_squared_add [of x] by (simp add: power2_eq_square algebra_simps)
    then show ?thesis by simp
  qed
  ultimately show "\<exists>y. (disk_above has_real_derivative y) (at x) \<and> 0 \<le> y"
    by blast
qed

lemma segment_fraction_arccos:
  assumes "0 < r" "0 \<le> x" "x \<le> r"
  shows "spec_segment_fraction x r = disk_above (arccos (x / r)) / pi"
proof -
  define t where "t = x / r"
  have "0 \<le> t" using assms by (simp add: t_def)
  moreover have "t \<le> 1" using assms by (simp add: t_def)
  ultimately have t: "- 1 \<le> t" "t \<le> 1" by simp_all
  have x: "x = r * t" using assms by (simp add: t_def)
  have "r\<^sup>2 - x\<^sup>2 = r\<^sup>2 * (1 - t\<^sup>2)"
    by (simp add: x power_mult_distrib right_diff_distrib)
  then have s: "sqrt (r\<^sup>2 - x\<^sup>2) = r * sqrt (1 - t\<^sup>2)"
    using assms by (simp add: real_sqrt_mult)
  have "spec_segment_fraction x r = (r\<^sup>2 * (arccos t - t * sqrt (1 - t\<^sup>2))) / (pi * r\<^sup>2)"
    unfolding spec_segment_fraction_def s t_def [symmetric]
    by (simp add: x power2_eq_square right_diff_distrib mult_ac)
  also have "\<dots> = (arccos t - t * sqrt (1 - t\<^sup>2)) / pi"
    using assms by simp
  also have "\<dots> = disk_above (arccos t) / pi"
    using t by (simp add: disk_above_def sin_arccos cos_arccos mult.commute)
  finally show ?thesis by (simp add: t_def)
qed

text \<open>One formula covers the three cases of the function.\<close>

lemma calc_unified:
  assumes "0 < r"
  shows "calculate_circular_segment_area s e r
           = disk_above (arccos (clamp_unit ((e - s) / r))) / pi"
proof -
  define h where "h = e - s"
  consider "h \<le> - r" | "r \<le> h" | "0 \<le> h" "h < r" | "- r < h" "h < 0"
    by linarith
  then show ?thesis
  proof cases
    case 1
    then have "h / r \<le> - 1" using assms by (simp add: pos_divide_le_eq)
    then have "clamp_unit (h / r) = - 1" by (simp add: clamp_unit_def)
    then show ?thesis using 1 assms
      by (simp add: calc_cases h_def [symmetric] disk_above_def)
  next
    case 2
    then have "1 \<le> h / r" using assms by (simp add: pos_le_divide_eq)
    then have "clamp_unit (h / r) = 1" by (simp add: clamp_unit_def)
    then show ?thesis using 2 assms
      by (simp add: calc_cases h_def [symmetric] disk_above_def)
  next
    case 3
    then have "0 \<le> h / r" "h / r \<le> 1" using assms by simp_all
    then have c: "clamp_unit (h / r) = h / r" by (simp add: clamp_unit_def)
    have "calculate_circular_segment_area s e r = spec_segment_fraction h r"
      using 3 assms by (simp add: calc_cases h_def [symmetric])
    then show ?thesis
      using 3 assms c by (simp add: segment_fraction_arccos h_def [symmetric])
  next
    case 4
    then have b: "- 1 \<le> h / r" "h / r \<le> 1"
      using assms by (simp_all add: pos_le_divide_eq pos_divide_le_eq)
    then have c: "clamp_unit (h / r) = h / r" by (simp add: clamp_unit_def)
    have "calculate_circular_segment_area s e r = 1 - spec_segment_fraction (- h) r"
      using 4 assms by (simp add: calc_cases h_def [symmetric])
    also have "\<dots> = 1 - disk_above (arccos (- (h / r))) / pi"
      using 4 assms by (simp add: segment_fraction_arccos)
    also have "\<dots> = 1 - disk_above (pi - arccos (h / r)) / pi"
      using b by (simp add: arccos_minus)
    also have "\<dots> = disk_above (arccos (h / r)) / pi"
      by (simp add: disk_above_def diff_divide_distrib add_divide_distrib)
    finally show ?thesis using c by (simp add: h_def [symmetric])
  qed
qed

lemma clamp_unit_bounds: "- 1 \<le> clamp_unit t" "clamp_unit t \<le> 1"
  by (simp_all add: clamp_unit_def)

lemma clamp_unit_mono: "a \<le> b \<Longrightarrow> clamp_unit a \<le> clamp_unit b"
  by (simp add: clamp_unit_def)

text \<open>
  Claim C10. For a fixed sun radius \<open>r > 0\<close> the returned fraction does not increase when
  \<open>h\<close>, the horizon elevation minus the sun elevation, increases: across the partial band
  and, with the boundary cases, across every \<open>h\<close>.
\<close>

theorem illumination_fraction_antimono:
  assumes "0 < r" and "e1 - s1 \<le> e2 - s2"
  shows "calculate_circular_segment_area s2 e2 r \<le> calculate_circular_segment_area s1 e1 r"
proof -
  have "(e1 - s1) / r \<le> (e2 - s2) / r"
    using assms by (simp add: divide_right_mono)
  then have "clamp_unit ((e1 - s1) / r) \<le> clamp_unit ((e2 - s2) / r)"
    by (rule clamp_unit_mono)
  then have "arccos (clamp_unit ((e2 - s2) / r)) \<le> arccos (clamp_unit ((e1 - s1) / r))"
    using clamp_unit_bounds [of "(e1 - s1) / r"] clamp_unit_bounds [of "(e2 - s2) / r"]
    by (simp add: arccos_le_mono abs_le_iff)
  then have "disk_above (arccos (clamp_unit ((e2 - s2) / r)))
               \<le> disk_above (arccos (clamp_unit ((e1 - s1) / r)))"
    by (rule disk_above_mono)
  then show ?thesis
    using assms(1) by (simp add: calc_unified divide_right_mono)
qed

theorem illumination_fraction_antimono_witness:
  "(0::real) < 1 / 4 \<and> (0::real) - 0 \<le> 1 / 8 - 0
   \<and> calculate_circular_segment_area 0 (1 / 8) (1 / 4)
        \<le> calculate_circular_segment_area 0 0 (1 / 4)"
proof -
  have r: "(0::real) < 1 / 4" and h: "(0::real) - 0 \<le> 1 / 8 - 0" by simp_all
  show ?thesis
    using r h illumination_fraction_antimono [OF r h] by simp
qed

section \<open>Properties of the horizon lookup\<close>

lemma np_mod_360_range: "0 \<le> np_mod x 360" "np_mod x 360 < 360"
proof -
  have "of_int \<lfloor>x / 360\<rfloor> \<le> x / 360" by (rule of_int_floor_le)
  then show "0 \<le> np_mod x 360" by (simp add: np_mod_def)
  have "x / 360 < of_int \<lfloor>x / 360\<rfloor> + 1" by linarith
  then show "np_mod x 360 < 360" unfolding np_mod_def by linarith
qed

lemma az_floor_range: "0 \<le> az_floor a" "az_floor a \<le> 359"
proof -
  show "0 \<le> az_floor a"
    using np_mod_360_range(1) [of a] by (simp add: az_floor_def)
  have "az_floor a < 360"
    using np_mod_360_range(2) [of a] by (simp add: az_floor_def floor_less_iff)
  then show "az_floor a \<le> 359" by simp
qed

lemma az_ceil_range: "0 \<le> az_ceil a" "az_ceil a \<le> 359"
proof -
  show "0 \<le> az_ceil a" by (simp add: az_ceil_def)
  have "az_ceil a < 360" by (simp add: az_ceil_def)
  then show "az_ceil a \<le> 359" by simp
qed

lemma np_index_in_range:
  assumes "0 \<le> i" "i < int (length xs)"
  shows "np_index xs i = Inr (xs ! nat i)"
  using assms by (simp add: np_index_def)

lemma horizon_pixel_360:
  assumes "length profile = 360"
  shows "horizon_pixel profile a = Inr (interpolated profile a)"
proof -
  have f: "np_index profile (az_floor a) = Inr (profile ! nat (az_floor a))"
    using az_floor_range [of a] assms by (intro np_index_in_range) simp_all
  have c: "np_index profile (az_ceil a) = Inr (profile ! nat (az_ceil a))"
    using az_ceil_range [of a] assms by (intro np_index_in_range) simp_all
  show ?thesis
    by (simp add: horizon_pixel_def interpolated_def f c Let_def)
qed

lemma np_mod_of_int: "np_mod (of_int k) 360 = of_int (k mod 360)"
proof -
  have "\<lfloor>real_of_int k / 360\<rfloor> = k div 360"
    by (simp add: floor_divide_of_int_eq [symmetric, where ?'a = real])
  then have "np_mod (of_int k) 360 = of_int k - 360 * of_int (k div 360)"
    by (simp add: np_mod_def)
  also have "\<dots> = of_int (k - 360 * (k div 360))" by simp
  also have "k - 360 * (k div 360) = k mod 360"
    by (simp add: minus_mult_div_eq_mod)
  finally show ?thesis .
qed

lemma interpolated_of_int:
  "interpolated profile (of_int k) = real_of_int (sint (profile ! nat (k mod 360))) / 100"
  by (simp add: interpolated_def az_floor_def np_mod_of_int Let_def)

lemma np_mod_wrap_half: "np_mod (719 / 2) 360 = 719 / 2"
proof -
  have "\<lfloor>(719 / 2 :: real) / 360\<rfloor> = 0" by (simp add: floor_eq_iff)
  then show ?thesis by (simp add: np_mod_def)
qed

lemma az_floor_wrap_half: "az_floor (719 / 2) = 359"
  by (simp add: az_floor_def np_mod_wrap_half floor_eq_iff)

lemma interpolated_wrap_half:
  "interpolated profile (719 / 2)
     = (real_of_int (sint (profile ! 359)) / 100 + real_of_int (sint (profile ! 0)) / 100) / 2"
  by (simp add: interpolated_def az_ceil_def az_floor_wrap_half np_mod_wrap_half Let_def
      field_simps)

lemma sequence_map:
  "(\<And>p. p \<in> set xs \<Longrightarrow> f p = Inr (h p)) \<Longrightarrow> sequence (map f xs) = Inr (map h xs)"
  by (induction xs) simp_all

lemma in_set_enumerate_0: "(i, v) \<in> set (enumerate 0 xs) \<Longrightarrow> i < length xs \<and> v = xs ! i"
  by (auto simp: in_set_enumerate_eq)

lemma lookup_covers:
  assumes "horizon_cube_covers roi grid"
  shows "get_horizon_elevation_vectorized roi grid =
     Inr (map (\<lambda>(y, row). map (\<lambda>(x, a). interpolated (roi ! y ! x) a) (enumerate 0 row))
            (enumerate 0 grid))"
  unfolding get_horizon_elevation_vectorized_def
proof (rule sequence_map)
  fix p assume p: "p \<in> set (enumerate 0 grid)"
  obtain y row where yr: "p = (y, row)" by (cases p)
  with p have y: "y < length grid" "row = grid ! y"
    using in_set_enumerate_0 [of y row grid] by simp_all
  have "sequence (map (\<lambda>(x, azimuth).
           if y < length roi \<and> x < length (roi ! y)
           then horizon_pixel (roi ! y ! x) azimuth
           else Inl IndexError) (enumerate 0 row))
        = Inr (map (\<lambda>(x, a). interpolated (roi ! y ! x) a) (enumerate 0 row))"
  proof (rule sequence_map)
    fix q assume q: "q \<in> set (enumerate 0 row)"
    obtain x a where xa: "q = (x, a)" by (cases q)
    with q have x: "x < length row" using in_set_enumerate_0 [of x a row] by simp
    have "y < length roi" "x < length (roi ! y)" "length (roi ! y ! x) = 360"
      using assms y x by (simp_all add: horizon_cube_covers_def)
    then show "(case q of (x, azimuth) \<Rightarrow>
           if y < length roi \<and> x < length (roi ! y)
           then horizon_pixel (roi ! y ! x) azimuth
           else Inl IndexError) = Inr (case q of (x, a) \<Rightarrow> interpolated (roi ! y ! x) a)"
      by (simp add: xa horizon_pixel_360)
  qed
  then show "(case p of (y, row) \<Rightarrow>
        sequence (map (\<lambda>(x, azimuth).
           if y < length roi \<and> x < length (roi ! y)
           then horizon_pixel (roi ! y ! x) azimuth
           else Inl IndexError) (enumerate 0 row)))
      = Inr (case p of (y, row) \<Rightarrow> map (\<lambda>(x, a). interpolated (roi ! y ! x) a) (enumerate 0 row))"
    by (simp add: yr)
qed

lemma lookup_covers_ex:
  assumes "horizon_cube_covers roi grid"
  shows "\<exists>g. get_horizon_elevation_vectorized roi grid = Inr g
           \<and> length g = length grid
           \<and> (\<forall>y < length grid. length (g ! y) = length (grid ! y)
                 \<and> (\<forall>x < length (grid ! y).
                       g ! y ! x = interpolated (roi ! y ! x) (grid ! y ! x)))"
proof -
  let ?g = "map (\<lambda>(y, row). map (\<lambda>(x, a). interpolated (roi ! y ! x) a) (enumerate 0 row))
            (enumerate 0 grid)"
  have "get_horizon_elevation_vectorized roi grid = Inr ?g"
    by (rule lookup_covers [OF assms])
  moreover have "length ?g = length grid" by simp
  moreover have "length (?g ! y) = length (grid ! y)" if "y < length grid" for y
    using that by (simp add: nth_enumerate_eq)
  moreover have "?g ! y ! x = interpolated (roi ! y ! x) (grid ! y ! x)"
    if "y < length grid" "x < length (grid ! y)" for y x
    using that by (simp add: nth_enumerate_eq)
  ultimately show ?thesis by blast
qed

lemma ramp_covers: "horizon_cube_covers [[ramp_profile]] [[a]]"
  by (simp add: horizon_cube_covers_def ramp_profile_def)

lemma sint_ramp: "n < 360 \<Longrightarrow> sint (ramp_profile ! n) = 10 * int n"
proof -
  assume n: "n < 360"
  have s: "sint (word_of_int k :: 16 word) = k" if "- (2 ^ 15) \<le> k" "k < 2 ^ 15" for k
    using that by (simp add: signed_of_int signed_take_bit_int_eq_self)
  have "sint (word_of_int (10 * int n) :: 16 word) = 10 * int n"
    using n by (intro s) simp_all
  then show ?thesis using n by (simp add: ramp_profile_def)
qed

text \<open>
  Claim C4. At every pixel of a lookup, an azimuth that is a whole number of degrees \<open>k\<close>
  (0, 90, 180 and 270 among them) returns the value stored in bucket \<open>k mod 360\<close> divided
  by 100, with no interpolation term left; and the azimuth 359.5 returns the average of
  the values stored in bucket 359 and in bucket 0.
\<close>

theorem horizon_lookup_exact_at_integer_degrees:
  assumes "horizon_cube_covers roi grid" and "y < length grid" and "x < length (grid ! y)"
  shows "\<exists>g. get_horizon_elevation_vectorized roi grid = Inr g
           \<and> (\<forall>k. grid ! y ! x = of_int k \<longrightarrow>
                 g ! y ! x = real_of_int (sint (roi ! y ! x ! nat (k mod 360))) / 100)
           \<and> (grid ! y ! x = 719 / 2 \<longrightarrow>
                 g ! y ! x = (real_of_int (sint (roi ! y ! x ! 359)) / 100
                              + real_of_int (sint (roi ! y ! x ! 0)) / 100) / 2)"
proof -
  from lookup_covers_ex [OF assms(1)]
  obtain g where g: "get_horizon_elevation_vectorized roi grid = Inr g"
    and v: "\<forall>y < length grid. length (g ! y) = length (grid ! y)
                 \<and> (\<forall>x < length (grid ! y).
                       g ! y ! x = interpolated (roi ! y ! x) (grid ! y ! x))"
    by blast
  have gv: "g ! y ! x = interpolated (roi ! y ! x) (grid ! y ! x)"
    using assms(2,3) v by blast
  have a: "\<forall>k. grid ! y ! x = of_int k \<longrightarrow>
             g ! y ! x = real_of_int (sint (roi ! y ! x ! nat (k mod 360))) / 100"
    by (simp add: gv interpolated_of_int)
  have b: "grid ! y ! x = 719 / 2 \<longrightarrow>
             g ! y ! x = (real_of_int (sint (roi ! y ! x ! 359)) / 100
                          + real_of_int (sint (roi ! y ! x ! 0)) / 100) / 2"
  proof
    assume h: "grid ! y ! x = 719 / 2"
    show "g ! y ! x = (real_of_int (sint (roi ! y ! x ! 359)) / 100
                          + real_of_int (sint (roi ! y ! x ! 0)) / 100) / 2"
      unfolding gv h by (rule interpolated_wrap_half)
  qed
  show ?thesis using g a b by blast
qed

theorem horizon_lookup_exact_at_integer_degrees_witness:
  "horizon_cube_covers [[ramp_profile]] [[90]]
   \<and> (\<exists>g. get_horizon_elevation_vectorized [[ramp_profile]] [[90]] = Inr g \<and> g ! 0 ! 0 = 9)
   \<and> (\<exists>g. get_horizon_elevation_vectorized [[ramp_profile]] [[719 / 2]] = Inr g
          \<and> g ! 0 ! 0 = 3590 / 200)"
proof -
  have a: "\<exists>g. get_horizon_elevation_vectorized [[ramp_profile]] [[90]] = Inr g \<and> g ! 0 ! 0 = 9"
    using horizon_lookup_exact_at_integer_degrees [OF ramp_covers [of 90], of 0 0]
    by (auto simp: sint_ramp)
  have b: "\<exists>g. get_horizon_elevation_vectorized [[ramp_profile]] [[719 / 2]] = Inr g
          \<and> g ! 0 ! 0 = 3590 / 200"
    using horizon_lookup_exact_at_integer_degrees [OF ramp_covers [of "719 / 2"], of 0 0]
    by (auto simp: sint_ramp)
  show ?thesis using a b ramp_covers by simp
qed

subsection \<open>The wrapped azimuth on binary64 numbers\<close>

lemma round_half_even_up:
  assumes "real_of_int n - 1 / 2 < x" and "x \<le> real_of_int n"
  shows "round_half_even x = n"
proof (cases "x = real_of_int n")
  case True
  then show ?thesis by (simp add: round_half_even_def)
next
  case False
  then have fl: "\<lfloor>x\<rfloor> = n - 1"
    using assms by (simp add: floor_eq_iff)
  have "1 / 2 < x - real_of_int (n - 1)" using assms(1) by simp
  then show ?thesis
    by (simp add: round_half_even_def fl Let_def)
qed

lemma round_binary64_in_binade_8:
  assumes "256 \<le> x" and "x < 512"
  shows "round_binary64 x = real_of_int (round_half_even (x * 2 ^ 44)) / 2 ^ 44"
proof -
  have p: "0 < x" using assms(1) by simp
  have "(2::real) powr real_of_int 8 \<le> x" "x < (2::real) powr real_of_int (8 + 1)"
    using assms by (simp_all add: powr_numeral)
  then have "\<lfloor>log 2 x\<rfloor> = 8"
    using p by (simp add: floor_log_eq_powr_iff)
  then have b: "\<lfloor>log 2 \<bar>x\<bar>\<rfloor> = 8" using p by simp
  have "(2::real) powr (real_of_int 8 - 52) = 2 powr (- 44)" by simp
  also have "\<dots> = 1 / 2 powr 44" by (simp add: powr_minus_divide)
  also have "\<dots> = 1 / 2 ^ 44" by (simp add: powr_numeral)
  finally have q: "(2::real) powr (real_of_int 8 - 52) = 1 / 2 ^ 44" .
  show ?thesis
    unfolding round_binary64_def b q Let_def using p by simp
qed

lemma round_binary64_near_360: "round_binary64 (360 - 1 / 2 ^ 70) = 360"
proof -
  define x :: real where "x = 360 - 1 / 2 ^ 70"
  have lo: "256 \<le> x" and hi: "x < 512"
    by (simp_all add: x_def)
  have "x * 2 ^ 44 = 360 * 2 ^ 44 - 1 / 2 ^ 26"
    by (simp add: x_def)
  then have "real_of_int (360 * 2 ^ 44) - 1 / 2 < x * 2 ^ 44"
    and "x * 2 ^ 44 \<le> real_of_int (360 * 2 ^ 44)"
    by simp_all
  then have "round_half_even (x * 2 ^ 44) = 360 * 2 ^ 44"
    by (rule round_half_even_up)
  then have "round_binary64 x = 360"
    by (simp add: round_binary64_in_binade_8 [OF lo hi])
  then show ?thesis by (simp only: x_def)
qed

lemma py_int_small: "- 1 < x \<Longrightarrow> x \<le> 0 \<Longrightarrow> py_int x = 0"
  by (simp add: py_int_def ceiling_eq_iff)

lemma np_mod_binary64_tiny_negative: "np_mod_binary64 (- (1 / 2 ^ 70)) 360 = 360"
proof -
  define x :: real where "x = - (1 / 2 ^ 70)"
  have neg: "x < 0" and small: "- 1 < x / 360" "x / 360 \<le> 0"
    by (simp_all add: x_def)
  have m: "c_fmod x 360 = x"
    by (simp add: c_fmod_def py_int_small [OF small])
  have "x + 360 = 360 - 1 / 2 ^ 70" by (simp add: x_def)
  then have "round_binary64 (x + 360) = 360"
    by (simp only: round_binary64_near_360)
  then have "np_mod_binary64 x 360 = 360"
    using neg by (simp add: np_mod_binary64_def m Let_def)
  then show ?thesis by (simp only: x_def)
qed

lemma np_index_360: "length profile = 360 \<Longrightarrow> np_index profile 360 = Inl IndexError"
  by (simp add: np_index_def)

text \<open>
  Claim C5, which the code does not meet. The claim is that for every azimuth, negative
  ones included, the wrapped azimuth lies in \<open>[0, 360)\<close> and no index is out of range. On
  binary64 numbers the azimuth \<open>-2^-70\<close> is wrapped to exactly 360: the remainder
  \<open>-2^-70\<close> is negative, and adding 360 to it rounds to 360. The floor bucket is then
  360, which is out of range for the 360 buckets of a pixel, and the lookup raises
  \<^verbatim>\<open>IndexError\<close>. On real numbers the same azimuth falls in bucket 359.
\<close>

theorem horizon_lookup_index_360:
  "np_mod_binary64 (- (1 / 2 ^ 70)) 360 = 360
   \<and> length ramp_profile = 360
   \<and> horizon_pixel_binary64 ramp_profile (- (1 / 2 ^ 70)) = Inl IndexError
   \<and> az_floor (- (1 / 2 ^ 70)) = 359"
proof -
  have len: "length ramp_profile = 360" by (simp add: ramp_profile_def)
  have hp: "horizon_pixel_binary64 ramp_profile (- (1 / 2 ^ 70)) = Inl IndexError"
    unfolding horizon_pixel_binary64_def np_mod_binary64_tiny_negative Let_def
    by (simp add: np_index_360 [OF len])
  define x :: real where "x = - (1 / 2 ^ 70)"
  have "\<lfloor>x / 360\<rfloor> = - 1"
    by (simp add: x_def floor_eq_iff)
  then have "np_mod x 360 = 360 + x"
    by (simp add: np_mod_def)
  moreover have "\<lfloor>360 + x\<rfloor> = 359"
    by (simp add: x_def floor_eq_iff)
  ultimately have "az_floor x = 359"
    by (simp add: az_floor_def)
  then have fl: "az_floor (- (1 / 2 ^ 70)) = 359"
    by (simp only: x_def)
  show ?thesis
    using np_mod_binary64_tiny_negative len hp fl by simp
qed

section \<open>Properties of the horizon grid construction\<close>

lemma take_drop_eq_map_nth:
  assumes "hi \<le> length xs"
  shows "take (hi - lo) (drop lo xs) = map ((!) xs) [lo..<hi]"
proof (rule nth_equalityI)
  show "length (take (hi - lo) (drop lo xs)) = length (map ((!) xs) [lo..<hi])"
    using assms by simp
next
  fix i assume "i < length (take (hi - lo) (drop lo xs))"
  then have i: "i < hi - lo" by simp
  then have "lo + i < hi" by simp
  then have "lo + i < length xs" using assms by simp
  then show "take (hi - lo) (drop lo xs) ! i = map ((!) xs) [lo..<hi] ! i"
    using i by simp
qed

lemma py_slice_interior:
  assumes "0 \<le> b"
  shows "py_slice xs b (int (length xs) - b) = map ((!) xs) [nat b..<nat (int (length xs) - b)]"
proof (cases "b \<le> int (length xs)")
  case True
  then have lo: "py_slice_bound (length xs) b = nat b"
    using assms by (simp add: py_slice_bound_def)
  have hi: "py_slice_bound (length xs) (int (length xs) - b) = nat (int (length xs) - b)"
    using True assms by (simp add: py_slice_bound_def)
  have "nat (int (length xs) - b) \<le> length xs" using assms by simp
  then show ?thesis
    by (simp add: py_slice_def lo hi Let_def take_drop_eq_map_nth)
next
  case False
  then have lo: "py_slice_bound (length xs) b = length xs"
    using assms by (simp add: py_slice_bound_def)
  have "nat (int (length xs) - b) = 0" using False by simp
  then show ?thesis
    by (simp add: py_slice_def lo Let_def)
qed

lemma buffer_px_of_positive:
  assumes "0 < pixel_size_of meta"
  shows "buffer_px_of meta = Inr (py_int (buffer_m_of meta / pixel_size_of meta))"
  using assms by (simp add: buffer_px_of_def Let_def)

lemma py_int_nonneg: "0 \<le> x \<Longrightarrow> 0 \<le> py_int x"
  by (simp add: py_int_def)

lemma RealDEM_load_fields:
  assumes "RealDEM_load meta mask_exists cube warp = Inr dem"
    and "buffer_px_of meta = Inr b"
  shows "roi_width dem = meta_width meta - 2 * b"
    and "roi_height dem = meta_height meta - 2 * b"
    and "horizon_roi dem = map (\<lambda>row. py_slice row b (meta_width meta - b))
                              (py_slice cube b (meta_height meta - b))"
    and "y_coords dem = map (\<lambda>i. aff_e (from_gdal (meta_transform meta)) * (real_of_int i + 1 / 2)
                                  + aff_f (from_gdal (meta_transform meta)))
                          (np_arange b (meta_height meta - b))"
    and "x_coords dem = map (\<lambda>i. aff_a (from_gdal (meta_transform meta)) * (real_of_int i + 1 / 2)
                                  + aff_c (from_gdal (meta_transform meta)))
                          (np_arange b (meta_width meta - b))"
  using assms
  by (auto simp: RealDEM_load_def Let_def affine_apply_def o_def mult.commute
      split: if_splits sum.splits)

text \<open>
  Claim C3, as amended. For every metadata record with a positive pixel size (the
  \<open>a\<close> coefficient of the affine transform) and a buffer distance that is not negative,
  the buffer in pixels is the quotient buffer distance / pixel size truncated toward zero,
  and the rows and the columns selected from the full cube are those with an index in
  \<open>[buffer, full dimension - buffer)\<close>.
\<close>

theorem roi_selection_truncates:
  assumes "0 < pixel_size_of meta" and "0 \<le> buffer_m_of meta"
    and "length cube = nat (meta_height meta)" and "0 \<le> meta_height meta"
    and "\<forall>row \<in> set cube. length row = nat (meta_width meta)" and "0 \<le> meta_width meta"
  shows "\<exists>b. buffer_px_of meta = Inr b \<and> b = py_int (buffer_m_of meta / pixel_size_of meta)
           \<and> (\<forall>dem. RealDEM_load meta mask_exists cube warp = Inr dem \<longrightarrow>
                 roi_width dem = meta_width meta - 2 * b
               \<and> roi_height dem = meta_height meta - 2 * b
               \<and> horizon_roi dem =
                   map (\<lambda>y. map (\<lambda>x. cube ! y ! x) [nat b..<nat (meta_width meta - b)])
                     [nat b..<nat (meta_height meta - b)])"
proof -
  define b where "b = py_int (buffer_m_of meta / pixel_size_of meta)"
  have bp: "buffer_px_of meta = Inr b"
    unfolding b_def by (rule buffer_px_of_positive [OF assms(1)])
  have b0: "0 \<le> b"
    unfolding b_def using assms(1,2) by (intro py_int_nonneg) simp
  have rows: "py_slice cube b (meta_height meta - b)
                = map ((!) cube) [nat b..<nat (meta_height meta - b)]"
    using py_slice_interior [OF b0, of cube] assms(3,4) by simp
  have cols: "py_slice (cube ! y) b (meta_width meta - b)
                = map ((!) (cube ! y)) [nat b..<nat (meta_width meta - b)]"
    if "y < nat (meta_height meta - b)" for y
  proof -
    have "y < length cube" using that assms(3) b0 by simp
    then have "length (cube ! y) = nat (meta_width meta)" using assms(5) by simp
    then show ?thesis
      using py_slice_interior [OF b0, of "cube ! y"] assms(6) by simp
  qed
  have "roi_width dem = meta_width meta - 2 * b
         \<and> roi_height dem = meta_height meta - 2 * b
         \<and> horizon_roi dem =
               map (\<lambda>y. map (\<lambda>x. cube ! y ! x) [nat b..<nat (meta_width meta - b)])
                 [nat b..<nat (meta_height meta - b)]"
    if "RealDEM_load meta mask_exists cube warp = Inr dem" for dem
    using RealDEM_load_fields(1,2,3) [OF that bp] rows cols by (simp add: o_def)
  then show ?thesis using bp b_def by blast
qed

lemma example_buffer_px: "buffer_px_of example_meta = Inr 1"
  by (simp add: buffer_px_of_def buffer_m_of_def pixel_size_of_def example_meta_def from_gdal_def
      py_int_def Let_def)

lemma np_arange_1_3: "np_arange 1 3 = [1, 2]"
  by (simp add: np_arange_def upto.simps)

lemma chunks_2_2: "chunks 2 2 [p, q, r, s] = [[p, q], [r, s]]"
  by (simp add: numeral_2_eq_2)

lemma example_load:
  "\<exists>dem. RealDEM_load example_meta True example_cube example_warp = Inr dem
      \<and> y_coords dem = [- 30, - 50] \<and> x_coords dem = [30, 50]
      \<and> lats dem = [[- 30, - 30], [- 50, - 50]] \<and> lons dem = [[30, 50], [30, 50]]"
  unfolding RealDEM_load_def example_buffer_px
  by (simp add: example_meta_def from_gdal_def Let_def np_arange_1_3 affine_apply_def
      np_reshape_def chunks_2_2 example_warp_def)

lemma upt_1_3: "[Suc 0..<3] = [Suc 0, 2]"
  by (simp add: upt_rec)

lemma example_cube_nth:
  "y < 4 \<Longrightarrow> x < 4 \<Longrightarrow> example_cube ! y ! x = replicate 360 (word_of_int (10 * int y + int x))"
  by (simp add: example_cube_def)

theorem roi_selection_truncates_witness:
  "0 < pixel_size_of example_meta \<and> 0 \<le> buffer_m_of example_meta
   \<and> buffer_px_of example_meta = Inr 1
   \<and> (\<exists>dem. RealDEM_load example_meta True example_cube example_warp = Inr dem
          \<and> roi_width dem = 2 \<and> roi_height dem = 2
          \<and> horizon_roi dem = [[replicate 360 11, replicate 360 12],
                                [replicate 360 21, replicate 360 22]])"
proof -
  have p: "0 < pixel_size_of example_meta"
    by (simp add: pixel_size_of_def example_meta_def from_gdal_def)
  have m: "0 \<le> buffer_m_of example_meta"
    by (simp add: buffer_m_of_def example_meta_def)
  have l: "length example_cube = nat (meta_height example_meta)"
    and h: "0 \<le> meta_height example_meta"
    and r: "\<forall>row \<in> set example_cube. length row = nat (meta_width example_meta)"
    and w: "0 \<le> meta_width example_meta"
    by (simp_all add: example_cube_def example_meta_def)
  from roi_selection_truncates [OF p m l h r w, of True example_warp]
  obtain b where b: "buffer_px_of example_meta = Inr b"
    and sel: "\<forall>dem. RealDEM_load example_meta True example_cube example_warp = Inr dem \<longrightarrow>
                 roi_width dem = meta_width example_meta - 2 * b
               \<and> roi_height dem = meta_height example_meta - 2 * b
               \<and> horizon_roi dem =
                   map (\<lambda>y. map (\<lambda>x. example_cube ! y ! x)
                                [nat b..<nat (meta_width example_meta - b)])
                     [nat b..<nat (meta_height example_meta - b)]"
    by blast
  have b1: "b = 1" using b example_buffer_px by simp
  from example_load obtain dem
    where dem: "RealDEM_load example_meta True example_cube example_warp = Inr dem"
    by blast
  have "roi_width dem = 2 \<and> roi_height dem = 2
          \<and> horizon_roi dem = [[replicate 360 11, replicate 360 12],
                                [replicate 360 21, replicate 360 22]]"
    using sel dem by (simp add: b1 example_meta_def upt_1_3 example_cube_nth)
  then show ?thesis using p m dem example_buffer_px by blast
qed

text \<open>
  The claim as first stated fails: a buffer of 35 m on pixels of 20 m is 1.75 pixels, which
  the constructor truncates to 1 and rounding would make 2; and with a negative buffer
  distance the slice bounds count from the end of each axis.
\<close>

theorem roi_buffer_rounding_counterexample:
  "buffer_px_of example_meta = Inr 1
   \<and> round (buffer_m_of example_meta / pixel_size_of example_meta) = 2
   \<and> buffer_px_of (example_meta\<lparr>meta_buffer_meters := Some (- 40)\<rparr>) = Inr (- 2)
   \<and> py_slice example_cube (- 2) (4 - (- 2)) = [example_cube ! 2, example_cube ! 3]"
proof -
  have "round (buffer_m_of example_meta / pixel_size_of example_meta) = 2"
    by (simp add: buffer_m_of_def pixel_size_of_def example_meta_def from_gdal_def round_def
        floor_eq_iff)
  moreover have "buffer_px_of (example_meta\<lparr>meta_buffer_meters := Some (- 40)\<rparr>) = Inr (- 2)"
    by (simp add: buffer_px_of_def buffer_m_of_def pixel_size_of_def example_meta_def
        from_gdal_def py_int_def Let_def)
  moreover have "py_slice example_cube (- 2) (4 - (- 2)) = [example_cube ! 2, example_cube ! 3]"
    by (simp add: py_slice_def py_slice_bound_def example_cube_def Let_def upt_rec)
  ultimately show ?thesis using example_buffer_px by simp
qed

lemma sorted_wrt_less_np_arange: "sorted_wrt (<) (np_arange i j)"
  by (simp add: np_arange_def strict_sorted_iff)

lemma y_coords_increasing:
  assumes "0 < e"
  shows "sorted_wrt (<) (map (\<lambda>i. e * (real_of_int i + 1 / 2) + f) (np_arange i j))"
  using assms sorted_wrt_less_np_arange [of i j]
  by (simp add: sorted_wrt_map)

lemma y_coords_decreasing:
  assumes "e < 0"
  shows "sorted_wrt (>) (map (\<lambda>i. e * (real_of_int i + 1 / 2) + f) (np_arange i j))"
  using assms sorted_wrt_less_np_arange [of i j]
  by (simp add: sorted_wrt_map)

lemma increasing_no_flip:
  fixes ys :: "real list"
  assumes "sorted_wrt (<) ys" and "\<not> hd ys < last ys"
  shows "sorted_wrt (>) ys"
proof (cases ys)
  case Nil
  then show ?thesis by simp
next
  case (Cons a zs)
  show ?thesis
  proof (cases zs)
    case Nil
    then show ?thesis using Cons by simp
  next
    case (Cons b ws)
    then have "last ys \<in> set zs" using \<open>ys = a # zs\<close> by simp
    then have "a < last ys" using assms(1) \<open>ys = a # zs\<close> by simp
    then show ?thesis using assms(2) \<open>ys = a # zs\<close> by simp
  qed
qed

lemma decreasing_no_flip:
  fixes ys :: "real list"
  assumes "sorted_wrt (>) ys"
  shows "\<not> hd ys < last ys"
proof (cases ys)
  case Nil
  then show ?thesis by (simp add: hd_def last_def)
next
  case (Cons a zs)
  show ?thesis
  proof (cases zs)
    case Nil
    then show ?thesis using Cons by simp
  next
    case (Cons b ws)
    then have "last ys \<in> set zs" using \<open>ys = a # zs\<close> by simp
    then have "last ys < a" using assms \<open>ys = a # zs\<close> by simp
    then show ?thesis using \<open>ys = a # zs\<close> by simp
  qed
qed

lemma enforce_decreasing_y_cases:
  assumes "enforce_decreasing_y d0 = Inr dem"
  shows "y_coords d0 \<noteq> []"
    and "hd (y_coords d0) < last (y_coords d0) \<Longrightarrow>
           y_coords dem = rev (y_coords d0) \<and> horizon_roi dem = rev (horizon_roi d0)
           \<and> lats dem = rev (lats d0) \<and> lons dem = rev (lons d0)"
    and "\<not> hd (y_coords d0) < last (y_coords d0) \<Longrightarrow> dem = d0"
  using assms by (auto simp: enforce_decreasing_y_def split: if_splits)

text \<open>
  Claim C6, as amended. When the construction succeeds on a raster whose affine row
  coefficient \<open>e\<close> is not zero, the exposed y-coordinates are strictly decreasing whatever
  the row order of the input; and when the loaded rows run south to north (the first
  y-coordinate is below the last), the y-coordinate vector and the horizon, latitude and
  longitude arrays are all reversed along the row axis. Otherwise nothing is changed.
\<close>

theorem orientation_enforced:
  assumes load: "RealDEM_load meta mask_exists cube warp = Inr d0"
    and init: "RealDEM_init meta mask_exists cube warp = Inr dem"
    and e: "aff_e (from_gdal (meta_transform meta)) \<noteq> 0"
  shows "sorted_wrt (>) (y_coords dem)
       \<and> (hd (y_coords d0) < last (y_coords d0) \<longrightarrow>
            y_coords dem = rev (y_coords d0) \<and> horizon_roi dem = rev (horizon_roi d0)
            \<and> lats dem = rev (lats d0) \<and> lons dem = rev (lons d0))
       \<and> (\<not> hd (y_coords d0) < last (y_coords d0) \<longrightarrow> dem = d0)"
proof -
  have enf: "enforce_decreasing_y d0 = Inr dem"
    using load init by (simp add: RealDEM_init_def)
  obtain b where b: "buffer_px_of meta = Inr b"
    using load by (auto simp: RealDEM_load_def Let_def split: sum.splits)
  define ee where "ee = aff_e (from_gdal (meta_transform meta))"
  define ff where "ff = aff_f (from_gdal (meta_transform meta))"
  have ys: "y_coords d0 = map (\<lambda>i. ee * (real_of_int i + 1 / 2) + ff)
                             (np_arange b (meta_height meta - b))"
    unfolding ee_def ff_def by (rule RealDEM_load_fields(4) [OF load b])
  have "sorted_wrt (>) (y_coords dem)"
  proof (cases "hd (y_coords d0) < last (y_coords d0)")
    case True
    have "\<not> ee < 0"
    proof
      assume "ee < 0"
      then have "sorted_wrt (>) (y_coords d0)"
        unfolding ys by (rule y_coords_decreasing)
      then show False using True decreasing_no_flip by blast
    qed
    then have "0 < ee" using e by (simp add: ee_def)
    then have "sorted_wrt (<) (y_coords d0)"
      unfolding ys by (rule y_coords_increasing)
    then have "sorted_wrt (>) (rev (y_coords d0))"
      by (simp add: sorted_wrt_rev)
    then show ?thesis
      using enforce_decreasing_y_cases(2) [OF enf True] by simp
  next
    case False
    then have same: "dem = d0" by (rule enforce_decreasing_y_cases(3) [OF enf])
    show ?thesis
    proof (cases "ee < 0")
      case True
      then have "sorted_wrt (>) (y_coords d0)"
        unfolding ys by (rule y_coords_decreasing)
      then show ?thesis by (simp add: same)
    next
      case ge: False
      then have "0 < ee" using e by (simp add: ee_def)
      then have "sorted_wrt (<) (y_coords d0)"
        unfolding ys by (rule y_coords_increasing)
      then show ?thesis
        using False increasing_no_flip by (simp add: same)
    qed
  qed
  then show ?thesis
    using enforce_decreasing_y_cases(2,3) [OF enf] by blast
qed


lemma example_south_up_buffer_px: "buffer_px_of example_meta_south_up = Inr 1"
  by (simp add: buffer_px_of_def buffer_m_of_def pixel_size_of_def example_meta_south_up_def
      example_meta_def from_gdal_def py_int_def Let_def)

lemma example_south_up_load:
  "\<exists>d0. RealDEM_load example_meta_south_up True example_cube example_warp = Inr d0
      \<and> y_coords d0 = [30, 50]
      \<and> horizon_roi d0 = [[replicate 360 11, replicate 360 12],
                            [replicate 360 21, replicate 360 22]]
      \<and> lats d0 = [[30, 30], [50, 50]] \<and> lons d0 = [[30, 50], [30, 50]]"
  unfolding RealDEM_load_def example_south_up_buffer_px
  by (simp add: example_meta_south_up_def example_meta_def from_gdal_def Let_def np_arange_1_3
      affine_apply_def np_reshape_def chunks_2_2 example_warp_def py_slice_def py_slice_bound_def
      example_cube_def upt_rec)

theorem orientation_enforced_witness:
  "aff_e (from_gdal (meta_transform example_meta_south_up)) \<noteq> 0
   \<and> (\<exists>dem. RealDEM_init example_meta_south_up True example_cube example_warp = Inr dem
          \<and> sorted_wrt (>) (y_coords dem)
          \<and> y_coords dem = [50, 30]
          \<and> horizon_roi dem = [[replicate 360 21, replicate 360 22],
                                [replicate 360 11, replicate 360 12]]
          \<and> lats dem = [[50, 50], [30, 30]] \<and> lons dem = [[30, 50], [30, 50]])"
proof -
  have e: "aff_e (from_gdal (meta_transform example_meta_south_up)) \<noteq> 0"
    by (simp add: example_meta_south_up_def example_meta_def from_gdal_def)
  from example_south_up_load obtain d0
    where load: "RealDEM_load example_meta_south_up True example_cube example_warp = Inr d0"
      and y0: "y_coords d0 = [30, 50]"
      and h0: "horizon_roi d0 = [[replicate 360 11, replicate 360 12],
                                 [replicate 360 21, replicate 360 22]]"
      and l0: "lats d0 = [[30, 30], [50, 50]]" "lons d0 = [[30, 50], [30, 50]]"
    by blast
  obtain dem where init: "RealDEM_init example_meta_south_up True example_cube example_warp = Inr dem"
    by (simp add: RealDEM_init_def load enforce_decreasing_y_def y0)
  have "sorted_wrt (>) (y_coords dem)
          \<and> y_coords dem = [50, 30]
          \<and> horizon_roi dem = [[replicate 360 21, replicate 360 22],
                                [replicate 360 11, replicate 360 12]]
          \<and> lats dem = [[50, 50], [30, 30]] \<and> lons dem = [[30, 50], [30, 50]]"
    using orientation_enforced [OF load init e] by (simp add: y0 h0 l0)
  then show ?thesis using e init by blast
qed

text \<open>
  Without the condition on \<open>e\<close> the claim fails: with \<open>e = 0\<close> every row has the same
  y-coordinate, the test \<^verbatim>\<open>y_coords[0] < y_coords[-1]\<close> is false, and the vector is
  exposed as it is.
\<close>

theorem orientation_degenerate_counterexample:
  "map_sum id y_coords (RealDEM_init example_meta_flat True example_cube example_warp)
     = Inr [0, 0]
   \<and> \<not> sorted_wrt (>) [0, 0 :: real]"
proof -
  have b: "buffer_px_of example_meta_flat = Inr 1"
    by (simp add: buffer_px_of_def buffer_m_of_def pixel_size_of_def example_meta_flat_def
        example_meta_def from_gdal_def py_int_def Let_def)
  have "map_sum id y_coords (RealDEM_init example_meta_flat True example_cube example_warp)
          = Inr [0, 0]"
    unfolding RealDEM_init_def RealDEM_load_def b
    by (simp add: example_meta_flat_def example_meta_def from_gdal_def Let_def np_arange_1_3
        affine_apply_def np_reshape_def chunks_2_2 example_warp_def enforce_decreasing_y_def)
  then show ?thesis by simp
qed

section \<open>Properties of the packing\<close>

lemma round_half_even_error: "\<bar>real_of_int (round_half_even x) - x\<bar> \<le> 1 / 2"
proof -
  have "real_of_int \<lfloor>x\<rfloor> \<le> x" "x < real_of_int \<lfloor>x\<rfloor> + 1" by linarith+
  then show ?thesis
    by (auto simp: round_half_even_def Let_def abs_le_iff)
qed

lemma round_half_even_of_int: "round_half_even (of_int k) = k"
  by (simp add: round_half_even_def)

lemma round_half_even_bounds:
  assumes "real_of_int a \<le> x" and "x \<le> real_of_int b"
  shows "a \<le> round_half_even x" and "round_half_even x \<le> b"
proof -
  have fl: "a \<le> \<lfloor>x\<rfloor>" using assms(1) by (simp add: le_floor_iff)
  then show "a \<le> round_half_even x"
    by (auto simp: round_half_even_def Let_def)
  have fb: "\<lfloor>x\<rfloor> \<le> b" using assms(2) by (simp add: floor_le_iff)
  show "round_half_even x \<le> b"
  proof (cases "\<lfloor>x\<rfloor> = b")
    case True
    then have "x - real_of_int \<lfloor>x\<rfloor> \<le> 0" using assms(2) by simp
    then show ?thesis using True by (auto simp: round_half_even_def Let_def)
  next
    case False
    then have "\<lfloor>x\<rfloor> + 1 \<le> b" using fb by simp
    then show ?thesis using fb by (auto simp: round_half_even_def Let_def)
  qed
qed

lemma sint_word8_of_int:
  assumes "- 128 \<le> k" and "k < 128"
  shows "sint (word_of_int k :: 8 word) = k"
  using assms by (simp add: signed_of_int signed_take_bit_int_eq_self)

lemma init_netcdf_attrs:
  assumes "init_netcdf ce se path dem s e = Inr ds"
  shows "scale_factor ds = 1 / 254" and "add_offset ds = 1 / 2" and "fill_value ds = - 128"
  using assms
  by (auto simp: init_netcdf_def nc_Dataset_def Let_def split: option.splits if_splits)

lemma packed_value:
  assumes "scale_factor ds = 1 / 254" and "add_offset ds = 1 / 2" and "0 \<le> v" and "v \<le> 1"
  shows "sint (nc_pack ds v) = round_half_even ((v - 1 / 2) * 254)"
    and "- 127 \<le> round_half_even ((v - 1 / 2) * 254)"
    and "round_half_even ((v - 1 / 2) * 254) \<le> 127"
proof -
  let ?x = "(v - 1 / 2) * 254"
  have "real_of_int (- 127) \<le> ?x" "?x \<le> real_of_int 127"
    using assms(3,4) by simp_all
  then have b: "- 127 \<le> round_half_even ?x" "round_half_even ?x \<le> 127"
    by (rule round_half_even_bounds)+
  show "- 127 \<le> round_half_even ?x" "round_half_even ?x \<le> 127" by (rule b)+
  have "nc_pack ds v = word_of_int (round_half_even ?x)"
    by (simp add: nc_pack_def assms(1,2))
  then show "sint (nc_pack ds v) = round_half_even ?x"
    using b by (simp only: sint_word8_of_int)
qed

text \<open>
  Claim C7. The dataset that \<^verbatim>\<open>init_netcdf\<close> creates has the scale 1/254 and the offset
  0.5; with them, packing sends the fraction 0 to \<open>-127\<close> and the fraction 1 to \<open>127\<close>;
  for every fraction \<open>v\<close> in \<open>[0, 1]\<close> unpacking the packed value gives \<open>v\<close> within half a
  packing step, that is within \<open>(1/254) / 2\<close>; and the packed value lies in
  \<open>[-127, 127]\<close>, so it is never the fill value \<open>-128\<close>.
\<close>

theorem packing_round_trip:
  assumes "init_netcdf ce se path dem s e = Inr ds"
  shows "scale_factor ds = 1 / 254 \<and> add_offset ds = 1 / 2
       \<and> sint (fill_value ds) = - 128
       \<and> sint (nc_pack ds 0) = - 127 \<and> sint (nc_pack ds 1) = 127
       \<and> (\<forall>v. 0 \<le> v \<and> v \<le> 1 \<longrightarrow>
             \<bar>nc_unpack ds (nc_pack ds v) - v\<bar> \<le> scale_factor ds / 2
           \<and> - 127 \<le> sint (nc_pack ds v) \<and> sint (nc_pack ds v) \<le> 127
           \<and> nc_pack ds v \<noteq> fill_value ds)"
proof -
  note a = init_netcdf_attrs(1,2,3) [OF assms]
  have f: "sint (fill_value ds) = - 128" by (simp add: a)
  have p0: "sint (nc_pack ds 0) = - 127"
    using packed_value(1) [OF a(1,2), of 0] round_half_even_of_int [of "- 127"] by simp
  have p1: "sint (nc_pack ds 1) = 127"
    using packed_value(1) [OF a(1,2), of 1] round_half_even_of_int [of 127] by simp
  have rt: "\<bar>nc_unpack ds (nc_pack ds v) - v\<bar> \<le> scale_factor ds / 2
           \<and> - 127 \<le> sint (nc_pack ds v) \<and> sint (nc_pack ds v) \<le> 127
           \<and> nc_pack ds v \<noteq> fill_value ds" if v: "0 \<le> v" "v \<le> 1" for v
  proof -
    let ?x = "(v - 1 / 2) * 254"
    note pv = packed_value [OF a(1,2) v]
    define d where "d = real_of_int (round_half_even ?x) - ?x"
    have "nc_unpack ds (nc_pack ds v) - v = d / 254"
      by (simp add: nc_unpack_def a pv(1) d_def field_simps)
    then have "\<bar>nc_unpack ds (nc_pack ds v) - v\<bar> = \<bar>d\<bar> / 254"
      by (simp only: abs_divide)
    also have "\<dots> \<le> (1 / 2) / 254"
      using round_half_even_error [of ?x] unfolding d_def [symmetric]
      by (intro divide_right_mono) simp_all
    finally have e: "\<bar>nc_unpack ds (nc_pack ds v) - v\<bar> \<le> scale_factor ds / 2"
      by (simp add: a)
    have r: "- 127 \<le> sint (nc_pack ds v)" "sint (nc_pack ds v) \<le> 127"
      using pv by simp_all
    have "sint (nc_pack ds v) \<noteq> sint (fill_value ds)" using r f by simp
    then have "nc_pack ds v \<noteq> fill_value ds" by auto
    then show ?thesis using e r by simp
  qed
  show ?thesis using a f p0 p1 rt by blast
qed


theorem packing_round_trip_witness:
  "(\<exists>ds. init_netcdf None None (JStr ''out.nc'') example_dem 0 3600000000 = Inr ds
       \<and> sint (nc_pack ds 0) = - 127 \<and> sint (nc_pack ds 1) = 127
       \<and> (0::real) \<le> 1 / 3 \<and> (1 / 3 :: real) \<le> 1
       \<and> \<bar>nc_unpack ds (nc_pack ds (1 / 3)) - 1 / 3\<bar> \<le> 1 / 508
       \<and> nc_pack ds (1 / 3) \<noteq> fill_value ds)"
proof -
  obtain ds where ds: "init_netcdf None None (JStr ''out.nc'') example_dem 0 3600000000 = Inr ds"
    by (simp add: init_netcdf_def example_dem_def Let_def)
  note t = packing_round_trip [OF ds]
  have s: "scale_factor ds = 1 / 254" using t by blast
  have p: "sint (nc_pack ds 0) = - 127" "sint (nc_pack ds 1) = 127" using t by blast+
  have v: "(0::real) \<le> 1 / 3" "(1 / 3 :: real) \<le> 1" by simp_all
  have "\<bar>nc_unpack ds (nc_pack ds (1 / 3)) - 1 / 3\<bar> \<le> scale_factor ds / 2
          \<and> nc_pack ds (1 / 3) \<noteq> fill_value ds"
    using t v by blast
  then have "sint (nc_pack ds 0) = - 127 \<and> sint (nc_pack ds 1) = 127
       \<and> (0::real) \<le> 1 / 3 \<and> (1 / 3 :: real) \<le> 1
       \<and> \<bar>nc_unpack ds (nc_pack ds (1 / 3)) - 1 / 3\<bar> \<le> 1 / 508
       \<and> nc_pack ds (1 / 3) \<noteq> fill_value ds"
    using p v by (simp add: s)
  then show ?thesis using ds by blast
qed

section \<open>Properties of the driver\<close>

lemma RealDEM_call_three: "RealDEM_call w [a, b, c] = Inl TypeError"
  by (simp add: RealDEM_call_def)

text \<open>
  Claim C2. For every configuration the entry point fails before any simulation work. It
  calls \<^verbatim>\<open>RealDEM\<close> with three arguments (the metadata path, the horizon path and the
  whole configuration) where the constructor takes two, so the call raises a
  \<^verbatim>\<open>TypeError\<close>, which propagates: the dataset is never created and no frame is
  computed or written, whatever the files, the kernels and the ephemeris are. (When the
  configuration lacks one of the two paths, evaluating the arguments already raises.)
\<close>

theorem main_fails_before_simulation:
  "(\<exists>ex. main w cfg = Some (Raised ex, None))
   \<and> main w cfg = main w' cfg
   \<and> (\<forall>a b. getitem2 cfg ''paths'' ''output_meta'' = Inr a
            \<and> getitem2 cfg ''paths'' ''output_horizon'' = Inr b \<longrightarrow>
          RealDEM_call w [a, b, cfg] = Inl TypeError
        \<and> main w cfg = Some (Raised TypeError, None))"
proof -
  have call: "RealDEM_call v [a, b, cfg] = Inl TypeError" for v a b
    by (rule RealDEM_call_three)
  have raised: "\<exists>ex. main w cfg = Some (Raised ex, None)"
    by (simp add: main_def call split: sum.splits)
  have same: "main w cfg = main w' cfg"
    by (simp add: main_def call split: sum.splits)
  have reached: "main w cfg = Some (Raised TypeError, None)"
    if "getitem2 cfg ''paths'' ''output_meta'' = Inr a"
      and "getitem2 cfg ''paths'' ''output_horizon'' = Inr b" for a b
    using that by (simp add: main_def call)
  show ?thesis
    using raised same reached call by blast
qed

theorem main_fails_before_simulation_witness:
  "getitem2 example_cfg ''paths'' ''output_meta'' = Inr (JStr ''meta.json'')
   \<and> getitem2 example_cfg ''paths'' ''output_horizon'' = Inr (JStr ''horizon.bin'')
   \<and> main example_world example_cfg = Some (Raised TypeError, None)"
proof -
  have a: "getitem2 example_cfg ''paths'' ''output_meta'' = Inr (JStr ''meta.json'')"
    by (simp add: getitem2_def py_getitem_def example_cfg_def)
  have b: "getitem2 example_cfg ''paths'' ''output_horizon'' = Inr (JStr ''horizon.bin'')"
    by (simp add: getitem2_def py_getitem_def example_cfg_def)
  show ?thesis
    using main_fails_before_simulation [of example_world example_cfg example_world] a b by blast
qed

text \<open>
  Claim C8, which the code does not meet. The claim is that a run from a start instant to
  one hour later, at the default step, yields two elapsed times and two frames. The
  configuration of the example asks for exactly that: its dates are one hour apart and it
  names no time step, so the step is the default of one hour; and in the world of the
  example no file is missing. Yet the entry point raises \<^verbatim>\<open>TypeError\<close> at the call of
  \<^verbatim>\<open>RealDEM\<close>, before the \<^verbatim>\<open>try\<close> statement: no dataset is created and no frame is
  written.
\<close>

theorem two_hour_run_never_starts:
  "getitem2 example_cfg ''mission'' ''start_date'' = Inr (JStr ''2030-01-01T00:00:00'')
   \<and> getitem2 example_cfg ''mission'' ''end_date'' = Inr (JStr ''2030-01-01T01:00:00'')
   \<and> fromisoformat example_world (JStr ''2030-01-01T00:00:00'') = Inr 64029052800000000
   \<and> fromisoformat example_world (JStr ''2030-01-01T01:00:00'')
       = Inr (64029052800000000 + 3600000000)
   \<and> time_step_hours_of example_cfg = Inr (JNum 1)
   \<and> timedelta_hours (JNum 1) = Inr 3600000000
   \<and> main example_world example_cfg = Some (Raised TypeError, None)"
proof -
  have s: "getitem2 example_cfg ''mission'' ''start_date'' = Inr (JStr ''2030-01-01T00:00:00'')"
    and e: "getitem2 example_cfg ''mission'' ''end_date'' = Inr (JStr ''2030-01-01T01:00:00'')"
    by (simp_all add: getitem2_def py_getitem_def example_cfg_def)
  have fs: "fromisoformat example_world (JStr ''2030-01-01T00:00:00'') = Inr 64029052800000000"
    and fe: "fromisoformat example_world (JStr ''2030-01-01T01:00:00'')
               = Inr (64029052800000000 + 3600000000)"
    by (simp_all add: example_world_def)
  have st: "time_step_hours_of example_cfg = Inr (JNum 1)"
    by (simp add: time_step_hours_of_def py_get_def example_cfg_def)
  have "round_half_even (real_of_int 3600000000) = 3600000000"
    by (rule round_half_even_of_int)
  then have td: "timedelta_hours (JNum 1) = Inr 3600000000"
    by (simp add: timedelta_hours_def timedelta_min_def timedelta_max_def)
  have a: "getitem2 example_cfg ''paths'' ''output_meta'' = Inr (JStr ''meta.json'')"
    and b: "getitem2 example_cfg ''paths'' ''output_horizon'' = Inr (JStr ''horizon.bin'')"
    by (simp_all add: getitem2_def py_getitem_def example_cfg_def)
  have m: "main example_world example_cfg = Some (Raised TypeError, None)"
    by (simp add: main_def a b RealDEM_call_three)
  show ?thesis
    using s e fs fe st td m by simp
qed


end
